theory Spec2Isabelle
  imports Complex_Main "HOL-Library.Multiset"
begin

section \<open>Errors\<close>

text \<open>
  Every exception the modelled Python can raise is a value. \<open>HTTPException\<close> carries the
  status code the endpoint puts on it; the other constructors are the built-in exception
  classes raised by Python, numpy and pandas.
\<close>

datatype error =
    ValueError
  | KeyError string
  | IndexError
  | TypeError
  | OverflowError
  | MergeError
  | HTTPException nat

section \<open>Entity tables of the generator\<close>

text \<open>
  \<open>generate_org_data.py\<close> builds three tables from lists of dictionaries. Each
  dictionary is a record here; the field names are the dictionary keys, with a prefix where
  two tables share a key.
\<close>

record department =
  department_id :: int
  department_name :: string
  department_type :: string
  headcount_weight :: real

record job_position =
  job_position_id :: int
  jp_department_id :: int
  position_name :: string
  seniority_level :: string

subsection \<open>generate_departments\<close>

definition departments :: "(string \<times> string \<times> real) list" where
  "departments =
     [(''Operations'', ''Core'', 4.0),
      (''Commercial'', ''Core'', 3.0),
      (''IT & Data'', ''Core'', 2.5),
      (''Finance'', ''Corporate'', 1.8),
      (''Human Resources'', ''Corporate'', 1.2),
      (''Legal & Compliance'', ''Support'', 0.7),
      (''Strategy & Projects'', ''Support'', 0.8)]"

definition generate_departments :: "department list" where
  "generate_departments =
     map (\<lambda>(i, (name, dept_type, weight)).
            \<lparr>department_id = int i + 1, department_name = name,
             department_type = dept_type, headcount_weight = weight\<rparr>)
         (enumerate 0 departments)"

subsection \<open>generate_job_positions\<close>

definition seniority_levels :: "string list" where
  "seniority_levels = [''Junior'', ''SemiSenior'', ''Senior'', ''Lead'', ''Manager'']"

text \<open>
  The two nested \<open>for\<close> loops append to \<open>job_positions\<close> and increment
  \<open>job_position_id\<close>; the loop state is the pair of both.
\<close>

fun level_loop :: "department \<Rightarrow> string list \<Rightarrow> job_position list \<times> int
                     \<Rightarrow> job_position list \<times> int" where
  "level_loop dept [] st = st"
| "level_loop dept (level # levels) (job_positions, jid) =
     level_loop dept levels
       (job_positions @
          [\<lparr>job_position_id = jid,
            jp_department_id = department_id dept,
            position_name = department_name dept @ '' '' @ level,
            seniority_level = level\<rparr>],
        jid + 1)"

fun dept_loop :: "department list \<Rightarrow> job_position list \<times> int \<Rightarrow> job_position list \<times> int" where
  "dept_loop [] st = st"
| "dept_loop (dept # depts) st = dept_loop depts (level_loop dept seniority_levels st)"

definition generate_job_positions :: "department list \<Rightarrow> job_position list" where
  "generate_job_positions departments_df = fst (dept_loop departments_df ([], 1))"

text \<open>
  The cross product as the specification words it: departments in table order, and within
  each department the five levels in their fixed order, numbered consecutively from 1.
\<close>

definition position_at :: "department list \<Rightarrow> int \<Rightarrow> nat \<Rightarrow> job_position" where
  "position_at ds j k =
     \<lparr>job_position_id = j + int k,
      jp_department_id = department_id (ds ! (k div 5)),
      position_name = department_name (ds ! (k div 5)) @ '' '' @ seniority_levels ! (k mod 5),
      seniority_level = seniority_levels ! (k mod 5)\<rparr>"

definition cross_product_positions :: "department list \<Rightarrow> job_position list" where
  "cross_product_positions ds = map (position_at ds 1) [0..<5 * length ds]"

section \<open>Random draws\<close>

text \<open>
  The generator reads two process-wide random sources: the seeded \<open>rng\<close> of the module
  and, for the days of the year, the unseeded \<open>np.random\<close>. Here the outcome of every
  draw is an explicit argument: one field per call site, indexed by the employee the draw is
  for. A draw that selects from a finite population is a natural number, reduced modulo the
  size of the population, so that every value of the argument is an outcome the library can
  produce and every outcome is produced by some value.
\<close>

record random_source =
  department_draw :: "nat \<Rightarrow> nat"
  seniority_draw :: "nat \<Rightarrow> nat"
  position_draw :: "nat \<Rightarrow> nat"
  normal_draw :: "nat \<Rightarrow> real"
  exponential_draw :: "nat \<Rightarrow> real"
  birth_day_draw :: "nat \<Rightarrow> nat"
  hire_day_draw :: "nat \<Rightarrow> nat"
  lognormal_draw :: "nat \<Rightarrow> real"
  first_name_draw :: "nat \<Rightarrow> nat"
  last_name_draw :: "nat \<Rightarrow> nat"

text \<open>
  \<open>rng.choice(a)\<close>: one element of \<open>a\<close>, uniformly; \<open>ValueError\<close> on an empty
  population.
\<close>

definition choice :: "'a list \<Rightarrow> nat \<Rightarrow> error + 'a" where
  "choice a k = (if a = [] then Inl ValueError else Inr (a ! (k mod length a)))"

text \<open>
  \<open>rng.choice(a, size=n, p=p)\<close>: numpy rejects probabilities that have the wrong
  length, are negative or do not sum to 1 (a division by a zero total gives such a vector),
  and then only returns elements of positive probability.
\<close>

definition choice_p :: "'a list \<Rightarrow> nat \<Rightarrow> real list \<Rightarrow> (nat \<Rightarrow> nat) \<Rightarrow> error + 'a list" where
  "choice_p a sz p draw =
     (if length p \<noteq> length a \<or> (\<exists>q \<in> set p. q < 0) \<or> sum_list p \<noteq> 1 then Inl ValueError
      else let support = map fst (filter (\<lambda>(x, q). 0 < q) (zip a p))
           in Inr (map (\<lambda>i. support ! (draw i mod length support)) [0..<sz]))"

text \<open>\<open>rng.choice(a, size=n)\<close> on one of the two fixed, non-empty name pools.\<close>

definition choice_uniform :: "'a list \<Rightarrow> nat \<Rightarrow> (nat \<Rightarrow> nat) \<Rightarrow> 'a list" where
  "choice_uniform a sz draw = map (\<lambda>i. a ! (draw i mod length a)) [0..<sz]"

text \<open>
  \<open>np.random.randint(low, high)\<close>: an integer from \<open>low\<close> (inclusive) to \<open>high\<close>
  (exclusive); \<open>ValueError\<close> when the range is empty.
\<close>

definition randint :: "int \<Rightarrow> int \<Rightarrow> nat \<Rightarrow> error + int" where
  "randint low high k =
     (if high \<le> low then Inl ValueError else Inr (low + int (k mod nat (high - low))))"

section \<open>Distribution generators\<close>

text \<open>
  Floating-point numbers are modelled as reals: the samples are arbitrary reals, and
  \<open>clip\<close>, \<open>minimum\<close>, \<open>maximum\<close> and rounding are exact. \<open>ndarray.round\<close> rounds
  to the nearest integer and a tie to the even neighbour.
\<close>

definition np_clip :: "real \<Rightarrow> real \<Rightarrow> real \<Rightarrow> real" where
  "np_clip a a_min a_max = min (max a a_min) a_max"

definition np_round :: "real \<Rightarrow> int" where
  "np_round x =
     (let f = \<lfloor>x\<rfloor>; d = x - of_int f
      in if d < 1 / 2 then f else if 1 / 2 < d then f + 1 else if even f then f else f + 1)"

definition generate_age :: "random_source \<Rightarrow> nat \<Rightarrow> int list" where
  "generate_age rng sz = map (\<lambda>i. np_round (np_clip (normal_draw rng i) 22 65)) [0..<sz]"

definition generate_tenure_years :: "random_source \<Rightarrow> int list \<Rightarrow> int list" where
  "generate_tenure_years rng ages =
     map (\<lambda>i. let raw = exponential_draw rng i;
                   tenure = np_clip raw 0 35;
                   max_tenure = max 0 (ages ! i - 21)
               in np_round (min tenure (of_int max_tenure)))
         [0..<length ages]"

subsection \<open>Dates\<close>

text \<open>
  A \<open>datetime.date\<close> is its proleptic Gregorian ordinal (\<open>date.toordinal()\<close>: 1 is
  0001-01-01), so that adding a \<open>timedelta\<close> of whole days is integer addition and
  comparing dates is comparing integers. Constructing a date outside the years 1 to 9999
  raises \<open>ValueError\<close>; arithmetic that leaves the range raises \<open>OverflowError\<close>.
\<close>

definition days_before_year :: "int \<Rightarrow> int" where
  "days_before_year year =
     (let y = year - 1 in y * 365 + y div 4 - y div 100 + y div 400)"

definition MAXORDINAL :: int where
  "MAXORDINAL = 3652059"

definition date_jan_1 :: "int \<Rightarrow> error + int" where
  "date_jan_1 year =
     (if 1 \<le> year \<and> year \<le> 9999 then Inr (days_before_year year + 1) else Inl ValueError)"

definition date_add_days :: "int \<Rightarrow> int \<Rightarrow> error + int" where
  "date_add_days d days =
     (let ordinal = d + days
      in if 0 < ordinal \<and> ordinal \<le> MAXORDINAL then Inr ordinal else Inl OverflowError)"

text \<open>Sequencing of computations that may raise.\<close>

definition and_then :: "error + 'a \<Rightarrow> ('a \<Rightarrow> error + 'b) \<Rightarrow> error + 'b" where
  "and_then r f = (case r of Inl e \<Rightarrow> Inl e | Inr x \<Rightarrow> f x)"

fun map_result :: "('a \<Rightarrow> error + 'b) \<Rightarrow> 'a list \<Rightarrow> error + 'b list" where
  "map_result f [] = Inr []"
| "map_result f (x # xs) =
     and_then (f x) (\<lambda>y. and_then (map_result f xs) (\<lambda>ys. Inr (y # ys)))"

text \<open>
  One iteration of the loop of \<open>generate_dates_from_age_and_tenure\<close>: the pair
  \<open>(birth_date, hire_date)\<close> of employee \<open>i\<close>. \<open>today_year\<close> is
  \<open>date.today().year\<close>.
\<close>

definition dates_of_employee ::
  "random_source \<Rightarrow> int \<Rightarrow> int list \<Rightarrow> int list \<Rightarrow> nat \<Rightarrow> error + (int \<times> int)" where
  "dates_of_employee rng today_year ages tenure_years i =
     (if length tenure_years \<le> i then Inl IndexError
      else
        let age = ages ! i;
            tenure = tenure_years ! i;
            birth_year = today_year - age;
            hire_year = today_year - tenure
        in and_then (randint 1 365 (birth_day_draw rng i)) (\<lambda>birth_day_of_year.
           and_then (randint 1 365 (hire_day_draw rng i)) (\<lambda>hire_day_of_year.
           and_then (date_jan_1 birth_year) (\<lambda>birth_jan_1.
           and_then (date_add_days birth_jan_1 birth_day_of_year) (\<lambda>birth_date.
           and_then (date_jan_1 hire_year) (\<lambda>hire_jan_1.
           and_then (date_add_days hire_jan_1 hire_day_of_year) (\<lambda>hire_date.
           and_then (date_add_days birth_date (18 * 365)) (\<lambda>min_hire_date.
             Inr (birth_date, if hire_date < min_hire_date then min_hire_date else hire_date)))))))))"

definition generate_dates_from_age_and_tenure ::
  "random_source \<Rightarrow> int \<Rightarrow> int list \<Rightarrow> int list \<Rightarrow> error + (int list \<times> int list)" where
  "generate_dates_from_age_and_tenure rng today_year ages tenure_years =
     and_then (map_result (dates_of_employee rng today_year ages tenure_years) [0..<length ages])
       (\<lambda>dates. Inr (map fst dates, map snd dates))"

subsection \<open>Salaries\<close>

definition level_factor :: "string \<Rightarrow> real option" where
  "level_factor = map_of
     [(''Junior'', 0.8), (''SemiSenior'', 1.0), (''Senior'', 1.3), (''Lead'', 1.6),
      (''Manager'', 2.0)]"

definition dept_type_factor :: "string \<Rightarrow> real option" where
  "dept_type_factor = map_of [(''Core'', 1.10), (''Corporate'', 1.00), (''Support'', 0.95)]"

text \<open>\<open>d.get(key, default)\<close> of a Python dictionary.\<close>

definition dict_get :: "('k \<Rightarrow> 'v option) \<Rightarrow> 'k \<Rightarrow> 'v \<Rightarrow> 'v" where
  "dict_get d key dflt = (case d key of None \<Rightarrow> dflt | Some v \<Rightarrow> v)"

text \<open>
  \<open>set_index("department_id")["department_type"].to_dict()\<close>: when an identifier occurs
  twice the later row overwrites the earlier one.
\<close>

definition dept_types :: "department list \<Rightarrow> int \<Rightarrow> string option" where
  "dept_types departments_df =
     map_of (rev (map (\<lambda>d. (department_id d, department_type d)) departments_df))"

definition generate_salary ::
  "random_source \<Rightarrow> string list \<Rightarrow> int list \<Rightarrow> department list \<Rightarrow> error + real list" where
  "generate_salary rng levels department_ids departments_df =
     map_result
       (\<lambda>i. if length department_ids \<le> i then Inl IndexError
            else
              let lvl = levels ! i;
                  dept_id = department_ids ! i;
                  lf = dict_get level_factor lvl 1.0;
                  dt = dict_get dept_type_factor
                         (dict_get (dept_types departments_df) dept_id ''Corporate'') 1.0
              in Inr (lognormal_draw rng i * lf * dt))
       [0..<length levels]"

section \<open>generate_employees\<close>

record employee =
  employee_id :: int
  first_name :: string
  last_name :: string
  emp_department_id :: int
  emp_job_position_id :: int
  emp_seniority_level :: string
  birth_date :: int
  hire_date :: int
  age :: int
  tenure_years :: int
  salary :: real

definition seniority_probs :: "real list" where
  "seniority_probs = [0.4, 0.3, 0.18, 0.07, 0.05]"

text \<open>
  The name pools hold the UTF-8 bytes of the source's strings; an accented letter is two
  bytes.
\<close>

definition first_names :: "string list" where
  "first_names =
     [''Carlos'', ''Mar'' @ [CHR 0xC3, CHR 0xAD] @ ''a'', [CHR 0xC3, CHR 0x81] @ ''ngela'',
      ''Jos'' @ [CHR 0xC3, CHR 0xA9], ''Pedro'', ''Jaime'', ''Ana'', ''Juan'', ''Mauricio'',
      ''Diego'']"

definition last_names :: "string list" where
  "last_names =
     [[CHR 0xC3, CHR 0x81] @ ''lvarez'', ''Henao'', ''Rodr'' @ [CHR 0xC3, CHR 0xAD] @ ''guez'',
      ''L'' @ [CHR 0xC3, CHR 0xB3] @ ''pez'', ''Hern'' @ [CHR 0xC3, CHR 0xA1] @ ''ndez'',
      ''P'' @ [CHR 0xC3, CHR 0xA9] @ ''rez'', ''G'' @ [CHR 0xC3, CHR 0xB3] @ ''mez'',
      ''S'' @ [CHR 0xC3, CHR 0xA1] @ ''nchez'', ''Ram'' @ [CHR 0xC3, CHR 0xAD] @ ''rez'',
      ''Torres'']"

text \<open>
  The position of one employee (the body of the loop over
  \<open>zip(employee_department_ids, employee_seniority)\<close>): the positions of the sampled
  department and level, in table order (the lists of \<open>grouped_positions\<close>), or, when there
  are none, every position of the department; then one of the candidates at random.
\<close>

definition select_job_position ::
  "job_position list \<Rightarrow> int \<Rightarrow> string \<Rightarrow> nat \<Rightarrow> error + int" where
  "select_job_position job_positions_df dept_id level k =
     (let grouped = map job_position_id
            (filter (\<lambda>p. jp_department_id p = dept_id \<and> seniority_level p = level)
               job_positions_df);
          candidates =
            (if grouped = []
             then map job_position_id (filter (\<lambda>p. jp_department_id p = dept_id) job_positions_df)
             else grouped)
      in choice candidates k)"

definition generate_employees ::
  "random_source \<Rightarrow> int \<Rightarrow> department list \<Rightarrow> job_position list \<Rightarrow> nat
     \<Rightarrow> error + employee list" where
  "generate_employees rng today_year departments_df job_positions_df n_employees =
     (let weights = map headcount_weight departments_df;
          dept_probs = map (\<lambda>w. w / sum_list weights) weights;
          dept_ids = map department_id departments_df
      in and_then (choice_p dept_ids n_employees dept_probs (department_draw rng))
           (\<lambda>employee_department_ids.
         and_then (choice_p seniority_levels n_employees seniority_probs (seniority_draw rng))
           (\<lambda>employee_seniority.
         and_then (map_result
                     (\<lambda>i. select_job_position job_positions_df (employee_department_ids ! i)
                            (employee_seniority ! i) (position_draw rng i))
                     [0..<n_employees])
           (\<lambda>job_position_ids.
         let ages = generate_age rng n_employees;
             tenures = generate_tenure_years rng ages
         in and_then (generate_dates_from_age_and_tenure rng today_year ages tenures)
           (\<lambda>dates.
         and_then (generate_salary rng employee_seniority employee_department_ids departments_df)
           (\<lambda>salaries.
         let employee_first_names = choice_uniform first_names n_employees (first_name_draw rng);
             employee_last_names = choice_uniform last_names n_employees (last_name_draw rng)
         in Inr (map (\<lambda>i. \<lparr>employee_id = int i + 1,
                            first_name = employee_first_names ! i,
                            last_name = employee_last_names ! i,
                            emp_department_id = employee_department_ids ! i,
                            emp_job_position_id = job_position_ids ! i,
                            emp_seniority_level = employee_seniority ! i,
                            birth_date = fst dates ! i,
                            hire_date = snd dates ! i,
                            age = ages ! i,
                            tenure_years = tenures ! i,
                            salary = salaries ! i\<rparr>)
                     [0..<n_employees])))))))"

section \<open>Data frames\<close>

text \<open>
  \<open>org_api.py\<close> works on pandas data frames. A cell is a number (integers and floats
  are both reals here), a string, a date or the missing value (\<open>NaN\<close>, \<open>None\<close>). A
  frame is its list of column names and its rows; a row lists its cells in column order.
  Column names are taken to be unique, as they are in every frame read from a Parquet file.
\<close>

datatype val = NumV real | StrV string | DateV int | NullV

record frame =
  columns :: "string list"
  rows :: "val list list"

text \<open>The cell of a row under a column name; \<open>None\<close> when the frame has no such column.\<close>

definition cell :: "string list \<Rightarrow> val list \<Rightarrow> string \<Rightarrow> val option" where
  "cell cols r c = map_of (zip cols r) c"

text \<open>\<open>row[c]\<close> raises \<open>KeyError\<close> on a missing label; \<open>row.get(c)\<close> returns \<open>None\<close>.\<close>

definition getitem :: "string list \<Rightarrow> val list \<Rightarrow> string \<Rightarrow> error + val" where
  "getitem cols r c = (case cell cols r c of None \<Rightarrow> Inl (KeyError c) | Some v \<Rightarrow> Inr v)"

text \<open>Every row of a frame has one cell per column.\<close>

definition rectangular :: "frame \<Rightarrow> bool" where
  "rectangular df \<longleftrightarrow> list_all (\<lambda>r. length r = length (columns df)) (rows df)"

text \<open>A column that holds a number in every row.\<close>

fun is_num :: "val option \<Rightarrow> bool" where
  "is_num (Some (NumV x)) = True"
| "is_num w = False"

definition numeric_column :: "frame \<Rightarrow> string \<Rightarrow> bool" where
  "numeric_column df c \<longleftrightarrow> list_all (\<lambda>r. is_num (cell (columns df) r c)) (rows df)"

text \<open>The cells of one column, top to bottom.\<close>

definition column :: "frame \<Rightarrow> string \<Rightarrow> val option list" where
  "column df c = map (\<lambda>r. cell (columns df) r c) (rows df)"

subsection \<open>merge\<close>

text \<open>
  \<open>left.merge(right, how="left", on=key, suffixes=("", suffix))\<close>. Both frames must have
  the key column. The result keeps every column of the left frame under its name, followed
  by the columns of the right frame other than the key; a right column whose name the left
  frame also has gets the suffix. pandas refuses suffixes that produce a duplicate name.
  Every left row, in order, is joined with each right row that has the same key (two missing
  keys match each other), in the order of the right frame; a left row without a partner
  appears once, with missing values in the right columns.
\<close>

definition right_columns :: "frame \<Rightarrow> string \<Rightarrow> string list" where
  "right_columns right key = filter (\<lambda>c. c \<noteq> key) (columns right)"

definition drop_key :: "frame \<Rightarrow> string \<Rightarrow> val list \<Rightarrow> val list" where
  "drop_key right key r = map snd (filter (\<lambda>(c, v). c \<noteq> key) (zip (columns right) r))"

definition matches :: "frame \<Rightarrow> frame \<Rightarrow> string \<Rightarrow> val list \<Rightarrow> val list list" where
  "matches left right key l =
     filter (\<lambda>r. cell (columns right) r key = cell (columns left) l key) (rows right)"

definition merge_row :: "frame \<Rightarrow> frame \<Rightarrow> string \<Rightarrow> val list \<Rightarrow> val list list" where
  "merge_row left right key l =
     (if matches left right key l = []
      then [l @ replicate (length (right_columns right key)) NullV]
      else map (\<lambda>r. l @ drop_key right key r) (matches left right key l))"

definition merge_left :: "frame \<Rightarrow> frame \<Rightarrow> string \<Rightarrow> string \<Rightarrow> error + frame" where
  "merge_left left right key suffix =
     (if key \<notin> set (columns left) \<or> key \<notin> set (columns right) then Inl (KeyError key)
      else
        let merged_columns =
              columns left @
              map (\<lambda>c. if c \<in> set (columns left) then c @ suffix else c)
                (right_columns right key)
        in if \<not> distinct merged_columns then Inl MergeError
           else Inr \<lparr>columns = merged_columns,
                     rows = concat (map (merge_row left right key) (rows left))\<rparr>)"

subsection \<open>Column conversions\<close>

text \<open>
  \<open>df[c] = df[c].astype(...)\<close> replaces the cells of one column. \<open>astype(int)\<close>
  truncates a number towards zero and fails on a missing value;
  \<open>astype(float).round(2)\<close> keeps a missing value and rounds a number to two decimals
  (to the nearest multiple of 0.01, a tie to the even one). Only numbers and missing values
  are converted here: a string or a date in such a column is a \<open>ValueError\<close> or a
  \<open>TypeError\<close> of the model.
\<close>

definition trunc :: "real \<Rightarrow> int" where
  "trunc x = (if 0 \<le> x then \<lfloor>x\<rfloor> else \<lceil>x\<rceil>)"

definition round2 :: "real \<Rightarrow> real" where
  "round2 x = of_int (np_round (x * 100)) / 100"

fun astype_int :: "val \<Rightarrow> error + val" where
  "astype_int (NumV x) = Inr (NumV (of_int (trunc x)))"
| "astype_int NullV = Inl ValueError"
| "astype_int (StrV s) = Inl ValueError"
| "astype_int (DateV d) = Inl TypeError"

fun astype_float_round2 :: "val \<Rightarrow> error + val" where
  "astype_float_round2 (NumV x) = Inr (NumV (round2 x))"
| "astype_float_round2 NullV = Inr NullV"
| "astype_float_round2 (StrV s) = Inl ValueError"
| "astype_float_round2 (DateV d) = Inl TypeError"

definition map_column :: "string \<Rightarrow> (val \<Rightarrow> error + val) \<Rightarrow> frame \<Rightarrow> error + frame" where
  "map_column c f df =
     and_then
       (map_result
          (\<lambda>r. map_result (\<lambda>(c', v). if c' = c then f v else Inr v) (zip (columns df) r))
          (rows df))
       (\<lambda>rs. Inr (df\<lparr>rows := rs\<rparr>))"

text \<open>The guarded conversions of \<open>_build_org_view\<close>: \<open>if c in org_view.columns\<close>.\<close>

definition convert_if_present ::
  "string \<Rightarrow> (val \<Rightarrow> error + val) \<Rightarrow> frame \<Rightarrow> error + frame" where
  "convert_if_present c f df = (if c \<in> set (columns df) then map_column c f df else Inr df)"

subsection \<open>_build_org_view\<close>

text \<open>
  The three frames are what \<open>_load_parquet_from_datalake\<close> returned; reading the storage is
  outside the model.
\<close>

definition build_org_view :: "frame \<Rightarrow> frame \<Rightarrow> frame \<Rightarrow> error + frame" where
  "build_org_view departments_df job_positions_df employees_df =
     and_then (merge_left employees_df job_positions_df ''job_position_id'' ''_job'')
       (\<lambda>employees_positions.
     and_then (merge_left employees_positions departments_df ''department_id'' ''_dept'')
       (\<lambda>org_view.
     and_then (convert_if_present ''employee_id'' astype_int org_view) (\<lambda>org_view.
     and_then (convert_if_present ''department_id'' astype_int org_view) (\<lambda>org_view.
     and_then (convert_if_present ''job_position_id'' astype_int org_view) (\<lambda>org_view.
     and_then (convert_if_present ''salary'' astype_float_round2 org_view) (\<lambda>org_view.
     convert_if_present ''tenure_years'' astype_float_round2 org_view))))))"

subsection \<open>The generated tables as frames\<close>

text \<open>
  \<open>pd.DataFrame(list_of_dicts)\<close>: the columns are the keys of the dictionaries, and an
  empty list gives a frame without columns. Writing a frame to Parquet and reading it back
  is taken to return the same frame.
\<close>

definition departments_frame :: "department list \<Rightarrow> frame" where
  "departments_frame ds =
     (if ds = [] then \<lparr>columns = [], rows = []\<rparr>
      else \<lparr>columns = [''department_id'', ''department_name'', ''department_type'',
                        ''headcount_weight''],
             rows = map (\<lambda>d. [NumV (of_int (department_id d)), StrV (department_name d),
                               StrV (department_type d), NumV (headcount_weight d)]) ds\<rparr>)"

definition job_positions_frame :: "job_position list \<Rightarrow> frame" where
  "job_positions_frame ps =
     (if ps = [] then \<lparr>columns = [], rows = []\<rparr>
      else \<lparr>columns = [''job_position_id'', ''department_id'', ''position_name'',
                        ''seniority_level''],
             rows = map (\<lambda>p. [NumV (of_int (job_position_id p)),
                               NumV (of_int (jp_department_id p)),
                               StrV (position_name p), StrV (seniority_level p)]) ps\<rparr>)"

definition employee_cells :: "employee \<Rightarrow> val list" where
  "employee_cells e =
     [NumV (of_int (employee_id e)), StrV (first_name e), StrV (last_name e),
      NumV (of_int (emp_department_id e)), NumV (of_int (emp_job_position_id e)),
      StrV (emp_seniority_level e), DateV (birth_date e), DateV (hire_date e),
      NumV (of_int (age e)), NumV (of_int (tenure_years e)), NumV (salary e)]"

definition employees_frame :: "employee list \<Rightarrow> frame" where
  "employees_frame es =
     (if es = [] then \<lparr>columns = [], rows = []\<rparr>
      else \<lparr>columns = [''employee_id'', ''first_name'', ''last_name'', ''department_id'',
                        ''job_position_id'', ''seniority_level'', ''birth_date'', ''hire_date'',
                        ''age'', ''tenure_years'', ''salary''],
             rows = map employee_cells es\<rparr>)"

section \<open>Sorting and grouping\<close>

text \<open>
  \<open>DataFrame.sort_values\<close> is called without a \<open>kind\<close>, so pandas sorts with its
  default, quicksort, which it documents as not stable. The sorting routine is therefore an
  argument of the model: \<open>srt keys\<close> is the list of positions into \<open>keys\<close> that
  \<open>numpy.argsort\<close> returns. All that is known about it is \<open>argsort_ok\<close>: the result is
  a permutation of the positions and lists the keys in ascending order. The order of equal
  keys is left to the routine.
\<close>

type_synonym argsort = "real list \<Rightarrow> nat list"


text \<open>Two routines: a stable one, and one that lists equal keys from right to left.\<close>

definition stable_argsort :: argsort where
  "stable_argsort keys = map snd (sort_key fst (zip keys [0..<length keys]))"


fun the_num :: "val \<Rightarrow> real" where
  "the_num (NumV x) = x"
| "the_num v = 0"

fun is_num_or_null :: "val \<Rightarrow> bool" where
  "is_num_or_null (NumV x) = True"
| "is_num_or_null NullV = True"
| "is_num_or_null v = False"

text \<open>
  \<open>pandas.core.sorting.nargsort\<close> with \<open>na_position="last"\<close>: the missing values are
  set aside and appended at the end; for a descending sort the remaining keys are reversed,
  sorted ascending, and the result is reversed again. The sort keys of the endpoints are
  numeric columns; keys that are strings or dates are a \<open>TypeError\<close> of the model.
\<close>

definition nargsort :: "argsort \<Rightarrow> val list \<Rightarrow> bool \<Rightarrow> error + nat list" where
  "nargsort srt items ascending =
     (if \<not> list_all is_num_or_null items then Inl TypeError
      else
        let idx = [0..<length items];
            non_nan_idx = filter (\<lambda>i. items ! i \<noteq> NullV) idx;
            nan_idx = filter (\<lambda>i. items ! i = NullV) idx;
            non_nans = map (\<lambda>i. the_num (items ! i)) non_nan_idx;
            indexer =
              (if ascending then map (\<lambda>j. non_nan_idx ! j) (srt non_nans)
               else rev (map (\<lambda>j. rev non_nan_idx ! j) (srt (rev non_nans))))
        in Inr (indexer @ nan_idx))"

definition cell_or_null :: "string list \<Rightarrow> val list \<Rightarrow> string \<Rightarrow> val" where
  "cell_or_null cols r c = (case cell cols r c of None \<Rightarrow> NullV | Some v \<Rightarrow> v)"

definition sort_values :: "argsort \<Rightarrow> frame \<Rightarrow> string \<Rightarrow> bool \<Rightarrow> error + frame" where
  "sort_values srt df by ascending =
     (if by \<notin> set (columns df) then Inl (KeyError by)
      else and_then (nargsort srt (map (\<lambda>r. cell_or_null (columns df) r by) (rows df)) ascending)
             (\<lambda>indexer. Inr (df\<lparr>rows := map (\<lambda>i. rows df ! i) indexer\<rparr>)))"

text \<open>
  \<open>groupby(by)\<close> with the defaults \<open>sort=True\<close> and \<open>dropna=True\<close>: rows with a
  missing value in a key column are dropped, and the groups come in ascending order of
  their keys, each with its rows in frame order. Keys are compared as numbers, as strings
  (by code point) or as dates, and lists of keys lexicographically.
\<close>

fun str_le :: "string \<Rightarrow> string \<Rightarrow> bool" where
  "str_le [] t = True"
| "str_le (x # s) [] = False"
| "str_le (x # s) (y # t) =
     ((of_char x :: nat) < of_char y \<or> ((of_char x :: nat) = of_char y \<and> str_le s t))"

fun val_rank :: "val \<Rightarrow> nat" where
  "val_rank (NumV x) = 0"
| "val_rank (StrV s) = 1"
| "val_rank (DateV d) = 2"
| "val_rank NullV = 3"

fun val_le :: "val \<Rightarrow> val \<Rightarrow> bool" where
  "val_le (NumV x) (NumV y) = (x \<le> y)"
| "val_le (StrV s) (StrV t) = str_le s t"
| "val_le (DateV d) (DateV e) = (d \<le> e)"
| "val_le u v = (val_rank u \<le> val_rank v)"

fun vals_le :: "val list \<Rightarrow> val list \<Rightarrow> bool" where
  "vals_le [] vs = True"
| "vals_le (u # us) [] = False"
| "vals_le (u # us) (v # vs) = (if u = v then vals_le us vs else val_le u v)"

fun insort_by :: "('a \<Rightarrow> 'a \<Rightarrow> bool) \<Rightarrow> 'a \<Rightarrow> 'a list \<Rightarrow> 'a list" where
  "insort_by le x [] = [x]"
| "insort_by le x (y # ys) = (if le x y then x # y # ys else y # insort_by le x ys)"

definition sort_by :: "('a \<Rightarrow> 'a \<Rightarrow> bool) \<Rightarrow> 'a list \<Rightarrow> 'a list" where
  "sort_by le xs = foldr (insort_by le) xs []"

definition group_key :: "frame \<Rightarrow> string list \<Rightarrow> val list \<Rightarrow> val list" where
  "group_key df by r = map (cell_or_null (columns df) r) by"

definition groupby :: "frame \<Rightarrow> string list \<Rightarrow> error + (val list \<times> val list list) list" where
  "groupby df by =
     (case filter (\<lambda>c. c \<notin> set (columns df)) by of
        c # cs \<Rightarrow> Inl (KeyError c)
      | [] \<Rightarrow>
          let kept = filter (\<lambda>r. NullV \<notin> set (group_key df by r)) (rows df);
              keys = sort_by vals_le (remdups (map (group_key df by) kept))
          in Inr (map (\<lambda>k. (k, filter (\<lambda>r. group_key df by r = k) kept)) keys))"

section \<open>The endpoints\<close>

text \<open>
  The endpoints read the module-level frame \<open>ORG_VIEW\<close>, the result of
  \<open>_build_org_view\<close>; it is an argument here. The functions are modelled as Python
  functions: the validation of the query parameters and of the response models by the web
  framework is outside the model. A float of a response is a \<open>real option\<close>, where
  \<open>None\<close> is \<open>NaN\<close>; a field filled by \<open>row.get\<close> or by a plain \<open>row[...]\<close> holds
  the cell, and \<open>None\<close> when \<open>row.get\<close> finds no such column.
\<close>

record EmployeeItem =
  item_employee_id :: int
  item_department_id :: int
  item_department_name :: "val option"
  item_job_position_id :: int
  item_job_title :: "val option"
  item_job_level :: "val option"
  item_salary :: "real option"
  item_tenure_years :: "real option"
  item_age :: "int option"


record SalaryLevelSummary =
  level_job_level :: val
  avg_salary :: "real option"
  min_salary :: "real option"
  max_salary :: "real option"
  level_count :: int

record SalarySummaryResponse =
  overall_avg_salary :: "real option"
  overall_min_salary :: "real option"
  overall_max_salary :: "real option"
  levels :: "SalaryLevelSummary list"

text \<open>
  \<open>int(x)\<close> and \<open>float(x)\<close> of a cell. \<open>int\<close> of \<open>NaN\<close> is a \<open>ValueError\<close>,
  \<open>float\<close> of \<open>NaN\<close> is \<open>NaN\<close>. As for the column conversions, only numbers and
  missing values are converted.
\<close>

fun py_int :: "val \<Rightarrow> error + int" where
  "py_int (NumV x) = Inr (trunc x)"
| "py_int NullV = Inl ValueError"
| "py_int (StrV s) = Inl ValueError"
| "py_int (DateV d) = Inl TypeError"

fun py_float :: "val \<Rightarrow> error + real option" where
  "py_float (NumV x) = Inr (Some x)"
| "py_float NullV = Inr None"
| "py_float (StrV s) = Inl ValueError"
| "py_float (DateV d) = Inl TypeError"

definition rounded_float :: "string list \<Rightarrow> val list \<Rightarrow> string \<Rightarrow> error + real option" where
  "rounded_float cols row c =
     (if c \<in> set cols
      then and_then (getitem cols row c) (\<lambda>v.
           and_then (py_float v) (\<lambda>x. Inr (map_option round2 x)))
      else Inr (Some 0.0))"

definition employee_item :: "string list \<Rightarrow> val list \<Rightarrow> error + EmployeeItem" where
  "employee_item cols row =
     and_then (and_then (getitem cols row ''employee_id'') py_int) (\<lambda>employee_id.
     and_then (and_then (getitem cols row ''department_id'') py_int) (\<lambda>department_id.
     and_then (and_then (getitem cols row ''job_position_id'') py_int) (\<lambda>job_position_id.
     and_then (rounded_float cols row ''salary'') (\<lambda>salary.
     and_then (rounded_float cols row ''tenure_years'') (\<lambda>tenure_years.
     and_then (if ''age'' \<in> set cols \<and> cell cols row ''age'' \<noteq> Some NullV
               then and_then (and_then (getitem cols row ''age'') py_int) (\<lambda>a. Inr (Some a))
               else Inr None) (\<lambda>age.
       Inr \<lparr>item_employee_id = employee_id,
            item_department_id = department_id,
            item_department_name = cell cols row ''department_name'',
            item_job_position_id = job_position_id,
            item_job_title = cell cols row ''job_title'',
            item_job_level = cell cols row ''job_level'',
            item_salary = salary,
            item_tenure_years = tenure_years,
            item_age = age\<rparr>))))))"

definition filter_rows :: "frame \<Rightarrow> string \<Rightarrow> val \<Rightarrow> frame" where
  "filter_rows df c v = df\<lparr>rows := filter (\<lambda>r. cell (columns df) r c = Some v) (rows df)\<rparr>"

definition list_employees ::
  "argsort \<Rightarrow> frame \<Rightarrow> int option \<Rightarrow> string option \<Rightarrow> nat \<Rightarrow> nat \<Rightarrow> error + EmployeeItem list" where
  "list_employees srt ORG_VIEW department_id' job_level limit offset =
     (let df = ORG_VIEW;
          df = (case department_id' of
                  Some d \<Rightarrow> if ''department_id'' \<in> set (columns df)
                            then filter_rows df ''department_id'' (NumV (of_int d)) else df
                | None \<Rightarrow> df);
          df = (case job_level of
                  Some l \<Rightarrow> if ''job_level'' \<in> set (columns df)
                            then filter_rows df ''job_level'' (StrV l) else df
                | None \<Rightarrow> df)
      in and_then (sort_values srt df ''employee_id'' True) (\<lambda>df.
           map_result (employee_item (columns df)) (take limit (drop offset (rows df)))))"


text \<open>
  The aggregations skip missing values; over no values at all, \<open>mean\<close>, \<open>min\<close> and
  \<open>max\<close> are \<open>NaN\<close>. \<open>size\<close> counts every row of the group.
\<close>

fun present :: "real option list \<Rightarrow> real list" where
  "present [] = []"
| "present (None # xs) = present xs"
| "present (Some x # xs) = x # present xs"

definition agg_mean :: "real option list \<Rightarrow> real option" where
  "agg_mean xs =
     (if present xs = [] then None
      else Some (sum_list (present xs) / of_nat (length (present xs))))"

definition agg_min :: "real option list \<Rightarrow> real option" where
  "agg_min xs = (case present xs of [] \<Rightarrow> None | y # ys \<Rightarrow> Some (fold min ys y))"

definition agg_max :: "real option list \<Rightarrow> real option" where
  "agg_max xs = (case present xs of [] \<Rightarrow> None | y # ys \<Rightarrow> Some (fold max ys y))"

definition salaries :: "string list \<Rightarrow> val list list \<Rightarrow> error + real option list" where
  "salaries cols rs = map_result (\<lambda>r. py_float (cell_or_null cols r ''salary'')) rs"

text \<open>\<open>df.assign(job_level="N/A")\<close> on a frame without that column.\<close>

definition assign_job_level :: "frame \<Rightarrow> frame" where
  "assign_job_level df =
     \<lparr>columns = columns df @ [''job_level''],
      rows = map (\<lambda>r. r @ [StrV ''N/A'']) (rows df)\<rparr>"

definition salary_summary :: "frame \<Rightarrow> error + SalarySummaryResponse" where
  "salary_summary ORG_VIEW =
     (let df = ORG_VIEW in
      if ''salary'' \<notin> set (columns df) then Inl (HTTPException 500)
      else
        let keyed = (if ''job_level'' \<in> set (columns df) then df else assign_job_level df)
        in and_then (groupby keyed [''job_level'']) (\<lambda>groups.
           and_then
             (map_result
                (\<lambda>(k, rs).
                   and_then (salaries (columns keyed) rs) (\<lambda>xs.
                     Inr \<lparr>level_job_level = hd k,
                          avg_salary = map_option round2 (agg_mean xs),
                          min_salary = map_option round2 (agg_min xs),
                          max_salary = map_option round2 (agg_max xs),
                          level_count = int (length rs)\<rparr>))
                groups)
             (\<lambda>levels.
           and_then (salaries (columns df) (rows df)) (\<lambda>xs.
             Inr \<lparr>overall_avg_salary = map_option round2 (agg_mean xs),
                  overall_min_salary = map_option round2 (agg_min xs),
                  overall_max_salary = map_option round2 (agg_max xs),
                  levels = levels\<rparr>))))"

section \<open>Notions used to state the behaviour of the endpoints\<close>

text \<open>
  A row survives the filters of \<open>list_employees\<close> when, for each of the two parameters
  that is given and whose column the view has, the cell under that column equals the
  parameter. The sort key of a row is the number in its \<open>employee_id\<close> cell.
\<close>

definition survives :: "frame \<Rightarrow> int option \<Rightarrow> string option \<Rightarrow> val list \<Rightarrow> bool" where
  "survives df department_id' job_level r \<longleftrightarrow>
     (case department_id' of
        None \<Rightarrow> True
      | Some d \<Rightarrow> ''department_id'' \<in> set (columns df)
                  \<longrightarrow> cell (columns df) r ''department_id'' = Some (NumV (of_int d)))
     \<and> (case job_level of
          None \<Rightarrow> True
        | Some l \<Rightarrow> ''job_level'' \<in> set (columns df)
                    \<longrightarrow> cell (columns df) r ''job_level'' = Some (StrV l))"




text \<open>
  The job level of a row as \<open>salary_summary\<close> groups by it (the sentinel when the view has
  no such column), and the salary of a row as a float.
\<close>

definition job_level_of :: "frame \<Rightarrow> val list \<Rightarrow> val" where
  "job_level_of df r =
     (if ''job_level'' \<in> set (columns df) then cell_or_null (columns df) r ''job_level''
      else StrV ''N/A'')"

definition salary_of :: "frame \<Rightarrow> val list \<Rightarrow> real option" where
  "salary_of df r = (case cell (columns df) r ''salary'' of Some (NumV x) \<Rightarrow> Some x | _ \<Rightarrow> None)"

text \<open>
  The job levels of a view are the distinct values, other than the missing value, that
  \<open>job_level_of\<close> takes on its rows; the summary of a level aggregates the salaries of
  the rows of that level.
\<close>

definition job_levels :: "frame \<Rightarrow> val list" where
  "job_levels df = remdups (filter (\<lambda>j. j \<noteq> NullV) (map (job_level_of df) (rows df)))"

definition level_summary :: "frame \<Rightarrow> val \<Rightarrow> SalaryLevelSummary" where
  "level_summary df j =
     (let rs = filter (\<lambda>r. job_level_of df r = j) (rows df);
          xs = map (salary_of df) rs
      in \<lparr>level_job_level = j,
           avg_salary = map_option round2 (agg_mean xs),
           min_salary = map_option round2 (agg_min xs),
           max_salary = map_option round2 (agg_max xs),
           level_count = int (length rs)\<rparr>)"

section \<open>Example inputs\<close>

text \<open>
  One fixed outcome of the draws, a one-department table and a positions table that has no
  position for the level the first draw selects ("Junior"), so that the fallback branch of
  the position lookup runs.
\<close>

definition example_rng :: random_source where
  "example_rng =
     \<lparr>department_draw = (\<lambda>i. i), seniority_draw = (\<lambda>i. 0), position_draw = (\<lambda>i. 0),
      normal_draw = (\<lambda>i. if i = 0 then 21.3 else 70.2), exponential_draw = (\<lambda>i. 50),
      birth_day_draw = (\<lambda>i. 363), hire_day_draw = (\<lambda>i. 0), lognormal_draw = (\<lambda>i. 5000),
      first_name_draw = (\<lambda>i. i), last_name_draw = (\<lambda>i. 9)\<rparr>"

definition example_departments :: "department list" where
  "example_departments =
     [\<lparr>department_id = 1, department_name = ''Ops'', department_type = ''Core'',
       headcount_weight = 4.0\<rparr>]"

definition example_positions :: "job_position list" where
  "example_positions =
     [\<lparr>job_position_id = 7, jp_department_id = 1, position_name = ''Ops Lead'',
       seniority_level = ''Lead''\<rparr>]"

definition example_employee :: employee where
  "example_employee =
     \<lparr>employee_id = 1, first_name = ''Carlos'', last_name = ''Torres'',
      emp_department_id = 1, emp_job_position_id = 7, emp_seniority_level = ''Junior'',
      birth_date = 731580, hire_date = 738887, age = 22, tenure_years = 1, salary = 4400\<rparr>"

text \<open>
  Two employees, the second with a \<open>job_position_id\<close> that no position has, and the
  view that \<open>_build_org_view\<close> builds from them.
\<close>







definition example_employees :: "employee list" where
  "example_employees =
     [example_employee,
      example_employee\<lparr>employee_id := 2, emp_job_position_id := 3, salary := 1234.565\<rparr>]"

definition example_view :: frame where
  "example_view =
     \<lparr>columns =
        [''employee_id'', ''first_name'', ''last_name'', ''department_id'',
         ''job_position_id'', ''seniority_level'', ''birth_date'', ''hire_date'', ''age'',
         ''tenure_years'', ''salary'', ''department_id_job'', ''position_name'',
         ''seniority_level_job'', ''department_name'', ''department_type'',
         ''headcount_weight''],
      rows =
        [[NumV 1, StrV ''Carlos'', StrV ''Torres'', NumV 1, NumV 7, StrV ''Junior'',
          DateV 731580, DateV 738887, NumV 22, NumV 1, NumV 4400, NumV 1, StrV ''Ops Lead'',
          StrV ''Lead'', StrV ''Ops'', StrV ''Core'', NumV 4],
         [NumV 2, StrV ''Carlos'', StrV ''Torres'', NumV 1, NumV 3, StrV ''Junior'',
          DateV 731580, DateV 738887, NumV 22, NumV 1, NumV 1234.56, NullV, NullV, NullV,
          StrV ''Ops'', StrV ''Core'', NumV 4]]\<rparr>"

section \<open>Properties of generate_job_positions\<close>

lemma upt_0_5: "[0..<5] = [0, 1, 2, 3, 4::nat]"
  by (simp add: upt_rec)

lemma upt_5_split: "[0..<5 * Suc n] = [0..<5] @ map (\<lambda>k. k + 5) [0..<5 * n]"
proof -
  have "[0..<5 * Suc n] = [0..<5] @ [5..<5 + 5 * n]"
    by (metis mult_Suc_right upt_add_eq_append zero_le)
  moreover have "[5..<5 + 5 * n] = map (\<lambda>k. k + 5) [0..<5 * n]"
    by (simp add: map_add_upt add.commute)
  ultimately show ?thesis by simp
qed

lemma level_loop_seniority:
  "level_loop d seniority_levels (acc, j) = (acc @ map (position_at (d # ds) j) [0..<5], j + 5)"
  by (simp add: seniority_levels_def upt_0_5 position_at_def)

lemma dept_loop_eq:
  "dept_loop ds (acc, j) =
     (acc @ map (position_at ds j) [0..<5 * length ds], j + 5 * int (length ds))"
proof (induction ds arbitrary: acc j)
  case Nil
  then show ?case by simp
next
  case (Cons d ds)
  have shifted: "map (position_at (d # ds) j \<circ> (\<lambda>k. k + 5)) [0..<5 * length ds] =
      map (position_at ds (j + 5)) [0..<5 * length ds]"
    by (rule map_cong) (auto simp: position_at_def)
  show ?case
    by (simp only: dept_loop.simps level_loop_seniority [where ds = ds] Cons.IH length_Cons
          upt_5_split map_append map_map shifted)
       (simp add: algebra_simps)
qed

text \<open>
  Claim C7. For any departments table, \<open>generate_job_positions\<close> returns the cross product
  of the departments with the five seniority levels, departments major and levels minor: row
  \<open>k\<close> (counting from 0) has \<open>job_position_id = k + 1\<close>, the \<open>department_id\<close> of
  department \<open>k div 5\<close>, level number \<open>k mod 5\<close> and the name
  "department_name level". There are five rows per department and the identifiers are
  1, 2, ..., 5n. For the single department "Ops" with id 1 the result is the five rows
  "Ops Junior" to "Ops Manager", all with \<open>department_id = 1\<close>.
\<close>

theorem generate_job_positions_cross_product:
  "generate_job_positions ds = cross_product_positions ds
   \<and> length (generate_job_positions ds) = 5 * length ds
   \<and> map job_position_id (generate_job_positions ds) = map (\<lambda>k. int k + 1) [0..<5 * length ds]
   \<and> generate_job_positions
         [\<lparr>department_id = 1, department_name = ''Ops'',
           department_type = ''Core'', headcount_weight = 4.0\<rparr>] =
       [\<lparr>job_position_id = 1, jp_department_id = 1,
         position_name = ''Ops Junior'', seniority_level = ''Junior''\<rparr>,
        \<lparr>job_position_id = 2, jp_department_id = 1,
         position_name = ''Ops SemiSenior'', seniority_level = ''SemiSenior''\<rparr>,
        \<lparr>job_position_id = 3, jp_department_id = 1,
         position_name = ''Ops Senior'', seniority_level = ''Senior''\<rparr>,
        \<lparr>job_position_id = 4, jp_department_id = 1,
         position_name = ''Ops Lead'', seniority_level = ''Lead''\<rparr>,
        \<lparr>job_position_id = 5, jp_department_id = 1,
         position_name = ''Ops Manager'', seniority_level = ''Manager''\<rparr>]"
proof -
  have eq: "generate_job_positions ds = cross_product_positions ds" for ds
    by (simp add: generate_job_positions_def cross_product_positions_def dept_loop_eq)
  have ids: "map job_position_id (cross_product_positions ds) =
               map (\<lambda>k. int k + 1) [0..<5 * length ds]"
    by (simp add: cross_product_positions_def position_at_def comp_def)
  have ops: "cross_product_positions
         [\<lparr>department_id = 1, department_name = ''Ops'',
           department_type = ''Core'', headcount_weight = 4.0\<rparr>] =
       [\<lparr>job_position_id = 1, jp_department_id = 1,
         position_name = ''Ops Junior'', seniority_level = ''Junior''\<rparr>,
        \<lparr>job_position_id = 2, jp_department_id = 1,
         position_name = ''Ops SemiSenior'', seniority_level = ''SemiSenior''\<rparr>,
        \<lparr>job_position_id = 3, jp_department_id = 1,
         position_name = ''Ops Senior'', seniority_level = ''Senior''\<rparr>,
        \<lparr>job_position_id = 4, jp_department_id = 1,
         position_name = ''Ops Lead'', seniority_level = ''Lead''\<rparr>,
        \<lparr>job_position_id = 5, jp_department_id = 1,
         position_name = ''Ops Manager'', seniority_level = ''Manager''\<rparr>]"
    by (simp add: cross_product_positions_def position_at_def seniority_levels_def upt_0_5)
  show ?thesis
    unfolding eq using ids ops by (simp add: cross_product_positions_def)
qed

section \<open>Properties of the distribution generators\<close>

lemma np_round_lower: "of_int a \<le> x \<Longrightarrow> a \<le> np_round x"
proof -
  assume "of_int a \<le> x"
  then have "a \<le> \<lfloor>x\<rfloor>" by (simp add: le_floor_iff)
  then show ?thesis by (simp add: np_round_def Let_def)
qed

lemma np_round_upper: "x \<le> of_int b \<Longrightarrow> np_round x \<le> b"
proof -
  assume le: "x \<le> of_int b"
  have fl: "\<lfloor>x\<rfloor> \<le> b" using le by (simp add: floor_le_iff)
  show ?thesis
  proof (cases "x - of_int \<lfloor>x\<rfloor> < 1 / 2")
    case True
    then show ?thesis using fl by (simp add: np_round_def Let_def)
  next
    case False
    then have "of_int \<lfloor>x\<rfloor> < x" by linarith
    then have "of_int \<lfloor>x\<rfloor> < (of_int b :: real)" using le by linarith
    then have "\<lfloor>x\<rfloor> < b" by simp
    then show ?thesis by (simp add: np_round_def Let_def)
  qed
qed

lemma generate_age_nth:
  "i < n \<Longrightarrow> 22 \<le> generate_age rng n ! i \<and> generate_age rng n ! i \<le> 65"
  by (auto simp: generate_age_def np_clip_def intro!: np_round_lower np_round_upper)

lemma generate_tenure_years_nth:
  assumes "i < length ages"
  shows "0 \<le> generate_tenure_years rng ages ! i
       \<and> generate_tenure_years rng ages ! i \<le> max 0 (ages ! i - 21)"
  using assms
  by (auto simp: generate_tenure_years_def np_clip_def Let_def
           intro!: np_round_lower np_round_upper)

lemma and_then_Inr: "and_then r f = Inr y \<longleftrightarrow> (\<exists>x. r = Inr x \<and> f x = Inr y)"
  by (cases r) (simp_all add: and_then_def)

lemma map_result_Inr:
  "map_result f xs = Inr ys \<Longrightarrow> list_all2 (\<lambda>x y. f x = Inr y) xs ys"
  by (induction xs arbitrary: ys) (auto simp: and_then_Inr)

lemma map_result_upt:
  assumes "map_result f [0..<n] = Inr ys"
  shows "length ys = n" and "i < n \<Longrightarrow> f i = Inr (ys ! i)"
proof -
  have l: "list_all2 (\<lambda>x y. f x = Inr y) [0..<n] ys" using assms by (rule map_result_Inr)
  then show "length ys = n" by (simp add: list_all2_lengthD[symmetric])
  show "i < n \<Longrightarrow> f i = Inr (ys ! i)"
    using list_all2_nthD[OF l, of i] by simp
qed

section \<open>Properties of generate_employees\<close>

lemma select_job_position_department:
  assumes "select_job_position ps d l k = Inr j"
  shows "\<exists>p \<in> set ps. job_position_id p = j \<and> jp_department_id p = d"
proof -
  define grouped where "grouped = map job_position_id
            (filter (\<lambda>p. jp_department_id p = d \<and> seniority_level p = l) ps)"
  define fallback where "fallback = map job_position_id (filter (\<lambda>p. jp_department_id p = d) ps)"
  define candidates where "candidates = (if grouped = [] then fallback else grouped)"
  have sub: "set candidates \<subseteq> set fallback"
    by (auto simp: candidates_def grouped_def fallback_def)
  have sel: "choice candidates k = Inr j"
    using assms
    unfolding select_job_position_def Let_def candidates_def grouped_def fallback_def .
  then have "candidates \<noteq> []" and "j = candidates ! (k mod length candidates)"
    by (auto simp: choice_def split: if_splits)
  then have "j \<in> set candidates" by simp
  with sub have "j \<in> set fallback" by blast
  then show ?thesis by (auto simp: fallback_def)
qed

lemma generate_employees_Inr:
  assumes "generate_employees rng y ds ps n = Inr es"
  shows "\<exists>dids sens jids dates sals.
    choice_p (map department_id ds) n
        (map (\<lambda>w. w / sum_list (map headcount_weight ds)) (map headcount_weight ds))
        (department_draw rng) = Inr dids
  \<and> choice_p seniority_levels n seniority_probs (seniority_draw rng) = Inr sens
  \<and> map_result (\<lambda>i. select_job_position ps (dids ! i) (sens ! i) (position_draw rng i)) [0..<n]
       = Inr jids
  \<and> generate_dates_from_age_and_tenure rng y (generate_age rng n)
        (generate_tenure_years rng (generate_age rng n)) = Inr dates
  \<and> generate_salary rng sens dids ds = Inr sals
  \<and> es = map (\<lambda>i. \<lparr>employee_id = int i + 1,
                    first_name = choice_uniform first_names n (first_name_draw rng) ! i,
                    last_name = choice_uniform last_names n (last_name_draw rng) ! i,
                    emp_department_id = dids ! i,
                    emp_job_position_id = jids ! i,
                    emp_seniority_level = sens ! i,
                    birth_date = fst dates ! i,
                    hire_date = snd dates ! i,
                    age = generate_age rng n ! i,
                    tenure_years = generate_tenure_years rng (generate_age rng n) ! i,
                    salary = sals ! i\<rparr>) [0..<n]"
  using assms unfolding generate_employees_def Let_def and_then_Inr by fastforce

lemmas generator_defs = generate_employees_def
  choice_p_def seniority_probs_def seniority_levels_def and_then_def select_job_position_def
  choice_def generate_age_def generate_tenure_years_def np_clip_def np_round_def Let_def
  generate_dates_from_age_and_tenure_def dates_of_employee_def randint_def date_jan_1_def
  date_add_days_def days_before_year_def MAXORDINAL_def generate_salary_def dict_get_def
  level_factor_def dept_type_factor_def dept_types_def choice_uniform_def first_names_def
  last_names_def

lemma example_generate_employees:
  "generate_employees example_rng 2025 example_departments example_positions 1 =
     Inr [example_employee]"
  by (simp add: generator_defs example_rng_def example_departments_def example_positions_def
        example_employee_def)

text \<open>
  Claim C1. Every employee that \<open>generate_employees\<close> returns has a \<open>job_position_id\<close>
  that is the identifier of a position of the positions table whose \<open>department_id\<close> is
  the employee's \<open>department_id\<close>; when the identifiers of the table are unique, that is
  the only position the identifier refers to. The positions table is arbitrary, so the
  statement covers the fallback branch taken when the table has no position for the sampled
  department and level.
\<close>

theorem generate_employees_position_department:
  assumes "generate_employees rng today_year ds ps n = Inr es" and "e \<in> set es"
  shows "(\<exists>p \<in> set ps. job_position_id p = emp_job_position_id e
                      \<and> jp_department_id p = emp_department_id e)
       \<and> (distinct (map job_position_id ps) \<longrightarrow>
            (\<forall>p \<in> set ps. job_position_id p = emp_job_position_id e
                          \<longrightarrow> jp_department_id p = emp_department_id e))"
proof -
  from generate_employees_Inr [OF assms(1)] obtain dids sens jids dates sals where
    jids: "map_result (\<lambda>i. select_job_position ps (dids ! i) (sens ! i) (position_draw rng i))
             [0..<n] = Inr jids"
    and es: "es = map (\<lambda>i. \<lparr>employee_id = int i + 1,
                    first_name = choice_uniform first_names n (first_name_draw rng) ! i,
                    last_name = choice_uniform last_names n (last_name_draw rng) ! i,
                    emp_department_id = dids ! i,
                    emp_job_position_id = jids ! i,
                    emp_seniority_level = sens ! i,
                    birth_date = fst dates ! i,
                    hire_date = snd dates ! i,
                    age = generate_age rng n ! i,
                    tenure_years = generate_tenure_years rng (generate_age rng n) ! i,
                    salary = sals ! i\<rparr>) [0..<n]"
    by blast
  from assms(2) es obtain i where i: "i < n"
    and dept: "emp_department_id e = dids ! i" and pos: "emp_job_position_id e = jids ! i"
    by auto
  from map_result_upt(2) [OF jids i]
  have "select_job_position ps (dids ! i) (sens ! i) (position_draw rng i) = Inr (jids ! i)" .
  from select_job_position_department [OF this] obtain p where
    p: "p \<in> set ps" "job_position_id p = jids ! i" "jp_department_id p = dids ! i"
    by blast
  have ex: "\<exists>p \<in> set ps. job_position_id p = emp_job_position_id e
                      \<and> jp_department_id p = emp_department_id e"
    using p dept pos by auto
  have uniq: "jp_department_id q = emp_department_id e"
    if d: "distinct (map job_position_id ps)" and q: "q \<in> set ps"
      "job_position_id q = emp_job_position_id e" for q
  proof -
    have "inj_on job_position_id (set ps)" using d by (simp add: distinct_map)
    moreover have "job_position_id q = job_position_id p" using p q pos by simp
    ultimately have "q = p" using q(1) p(1) by (rule inj_onD)
    with p dept show ?thesis by simp
  qed
  from ex uniq show ?thesis by blast
qed

theorem generate_employees_position_department_witness:
  "generate_employees example_rng 2025 example_departments example_positions 1 =
     Inr [example_employee]
   \<and> filter (\<lambda>p. jp_department_id p = 1 \<and> seniority_level p = ''Junior'') example_positions = []
   \<and> distinct (map job_position_id example_positions)
   \<and> map jp_department_id
         (filter (\<lambda>p. job_position_id p = emp_job_position_id example_employee)
            example_positions) =
       [emp_department_id example_employee]"
proof -
  have d: "distinct (map job_position_id example_positions)"
    by (simp add: example_positions_def)
  have f: "filter (\<lambda>p. jp_department_id p = 1 \<and> seniority_level p = ''Junior'')
             example_positions = []"
    by (simp add: example_positions_def)
  from generate_employees_position_department
         [OF example_generate_employees, of example_employee] d f example_generate_employees
  show ?thesis by (simp add: example_positions_def example_employee_def)
qed

text \<open>
  Claim C2. Every employee that \<open>generate_employees\<close> returns has an age between 22 and 65
  and a number of years of tenure between 0 and the age minus 21.
\<close>

theorem generate_employees_age_tenure:
  assumes "generate_employees rng today_year ds ps n = Inr es" and "e \<in> set es"
  shows "22 \<le> age e \<and> age e \<le> 65 \<and> 0 \<le> tenure_years e \<and> tenure_years e \<le> age e - 21"
proof -
  from generate_employees_Inr [OF assms(1)] obtain dids sens jids dates sals where
    es: "es = map (\<lambda>i. \<lparr>employee_id = int i + 1,
                    first_name = choice_uniform first_names n (first_name_draw rng) ! i,
                    last_name = choice_uniform last_names n (last_name_draw rng) ! i,
                    emp_department_id = dids ! i,
                    emp_job_position_id = jids ! i,
                    emp_seniority_level = sens ! i,
                    birth_date = fst dates ! i,
                    hire_date = snd dates ! i,
                    age = generate_age rng n ! i,
                    tenure_years = generate_tenure_years rng (generate_age rng n) ! i,
                    salary = sals ! i\<rparr>) [0..<n]"
    by blast
  from assms(2) es obtain i where i: "i < n"
    and a: "age e = generate_age rng n ! i"
    and t: "tenure_years e = generate_tenure_years rng (generate_age rng n) ! i"
    by auto
  have len: "length (generate_age rng n) = n" by (simp add: generate_age_def)
  from generate_age_nth [OF i, of rng] a have age: "22 \<le> age e" "age e \<le> 65" by simp_all
  from generate_tenure_years_nth [of i "generate_age rng n" rng] i len a t
  have "0 \<le> tenure_years e" "tenure_years e \<le> max 0 (age e - 21)" by simp_all
  with age show ?thesis by simp
qed

theorem generate_employees_age_tenure_witness:
  "generate_employees example_rng 2025 example_departments example_positions 1 =
     Inr [example_employee]
   \<and> age example_employee = 22 \<and> tenure_years example_employee = 1
   \<and> 22 \<le> age example_employee \<and> age example_employee \<le> 65
   \<and> 0 \<le> tenure_years example_employee
   \<and> tenure_years example_employee \<le> age example_employee - 21"
  using generate_employees_age_tenure [OF example_generate_employees, of example_employee]
    example_generate_employees
  by (simp add: example_employee_def)

section \<open>Properties of generate_dates_from_age_and_tenure\<close>

lemma dates_of_employee_Inr:
  assumes "dates_of_employee rng y ages tens i = Inr (b, h)"
  shows "\<exists>day jan_1 sampled.
           randint 1 365 (hire_day_draw rng i) = Inr day
         \<and> date_jan_1 (y - tens ! i) = Inr jan_1
         \<and> date_add_days jan_1 day = Inr sampled
         \<and> h = (if sampled < b + 18 * 365 then b + 18 * 365 else sampled)"
proof -
  from assms have "\<not> length tens \<le> i"
    by (auto simp: dates_of_employee_def)
  with assms have "\<exists>day jan_1 sampled min_hire.
      randint 1 365 (hire_day_draw rng i) = Inr day
    \<and> date_jan_1 (y - tens ! i) = Inr jan_1
    \<and> date_add_days jan_1 day = Inr sampled
    \<and> date_add_days b (18 * 365) = Inr min_hire
    \<and> h = (if sampled < min_hire then min_hire else sampled)"
    by (simp only: dates_of_employee_def Let_def if_False and_then_Inr Inr_inject prod.inject)
       blast
  then obtain day jan_1 sampled min_hire where
    "randint 1 365 (hire_day_draw rng i) = Inr day"
    "date_jan_1 (y - tens ! i) = Inr jan_1"
    "date_add_days jan_1 day = Inr sampled"
    "date_add_days b (18 * 365) = Inr min_hire"
    "h = (if sampled < min_hire then min_hire else sampled)"
    by blast
  moreover from this have "min_hire = b + 18 * 365"
    by (auto simp: date_add_days_def Let_def split: if_splits)
  ultimately show ?thesis by blast
qed

text \<open>
  Claim C6. In the dates that \<open>generate_dates_from_age_and_tenure\<close> returns, every hire
  date is at least 18 * 365 days after the birth date of the same employee: it is the date
  sampled in the hire year, or, when that date is earlier than the birth date plus
  18 * 365 days, exactly the birth date plus 18 * 365 days.
\<close>

theorem generate_dates_hire_after_birth:
  assumes "generate_dates_from_age_and_tenure rng today_year ages tenures = Inr (bds, hds)"
    and "i < length ages"
  shows "length bds = length ages \<and> length hds = length ages
       \<and> bds ! i + 18 * 365 \<le> hds ! i
       \<and> (\<exists>day jan_1 sampled.
             randint 1 365 (hire_day_draw rng i) = Inr day
           \<and> date_jan_1 (today_year - tenures ! i) = Inr jan_1
           \<and> date_add_days jan_1 day = Inr sampled
           \<and> hds ! i = (if sampled < bds ! i + 18 * 365 then bds ! i + 18 * 365 else sampled))"
proof -
  from assms(1) obtain dates where
    m: "map_result (dates_of_employee rng today_year ages tenures) [0..<length ages] = Inr dates"
    and b: "bds = map fst dates" and h: "hds = map snd dates"
    by (auto simp: generate_dates_from_age_and_tenure_def and_then_Inr)
  have len: "length dates = length ages" using map_result_upt(1) [OF m] .
  from map_result_upt(2) [OF m assms(2)]
  have "dates_of_employee rng today_year ages tenures i = Inr (dates ! i)" .
  then have "dates_of_employee rng today_year ages tenures i = Inr (bds ! i, hds ! i)"
    using b h len assms(2) by simp
  from dates_of_employee_Inr [OF this] obtain day jan_1 sampled where
    s: "randint 1 365 (hire_day_draw rng i) = Inr day"
       "date_jan_1 (today_year - tenures ! i) = Inr jan_1"
       "date_add_days jan_1 day = Inr sampled"
       "hds ! i = (if sampled < bds ! i + 18 * 365 then bds ! i + 18 * 365 else sampled)"
    by blast
  then have "bds ! i + 18 * 365 \<le> hds ! i" by (simp split: if_splits)
  with s b h len show ?thesis by auto
qed

lemma example_generate_dates:
  "generate_dates_from_age_and_tenure example_rng 2025 [30] [20] = Inr ([728658], [735228])"
  by (simp add: generator_defs example_rng_def)

theorem generate_dates_hire_after_birth_witness:
  "generate_dates_from_age_and_tenure example_rng 2025 [30] [20] = Inr ([728658], [735228])
   \<and> date_jan_1 (2025 - 20) = Inr 731947
   \<and> date_add_days 731947 1 = Inr 731948
   \<and> 731948 < (728658::int) + 18 * 365
   \<and> [728658] ! 0 + 18 * 365 \<le> [735228::int] ! 0
   \<and> [735228::int] ! 0 = 728658 + 18 * 365"
  using generate_dates_hire_after_birth [OF example_generate_dates, of 0]
  by (simp add: example_generate_dates date_jan_1_def days_before_year_def
        date_add_days_def MAXORDINAL_def)

text \<open>
  Claim C9 says that the day of the year is drawn from 1 to 365 inclusive. The code draws
  it with \<open>np.random.randint(1, 365)\<close>, whose upper bound is exclusive: whatever the
  random source returns, the birth and hire days of the year lie between 1 and 364, and
  365 is never drawn.
\<close>

theorem day_of_year_never_365:
  "randint 1 365 (birth_day_draw rng i) \<noteq> Inr 365
   \<and> randint 1 365 (hire_day_draw rng i) \<noteq> Inr 365
   \<and> (\<exists>d. randint 1 365 (birth_day_draw rng i) = Inr d \<and> 1 \<le> d \<and> d \<le> 364)
   \<and> (\<exists>d. randint 1 365 (hire_day_draw rng i) = Inr d \<and> 1 \<le> d \<and> d \<le> 364)"
proof -
  have "\<exists>d. randint 1 365 k = Inr d \<and> 1 \<le> d \<and> d \<le> 364" for k
  proof -
    have "k mod 364 < 364" by simp
    then show ?thesis by (simp add: randint_def)
  qed
  from this [of "birth_day_draw rng i"] this [of "hire_day_draw rng i"]
  show ?thesis by auto
qed

section \<open>Properties of the view builder\<close>

lemma filter_key_le_1:
  "distinct (map g xs) \<Longrightarrow> length (filter (\<lambda>x. g x = k) xs) \<le> 1"
  by (induction xs) (auto simp: filter_empty_conv image_iff)

lemma length_concat_singletons:
  "(\<And>x. x \<in> set xs \<Longrightarrow> length (f x) = 1) \<Longrightarrow> length (concat (map f xs)) = length xs"
  by (induction xs) auto

lemma length_merge_row:
  assumes "distinct (column right key)"
  shows "length (merge_row left right key l) = 1"
proof -
  have "length (matches left right key l) \<le> 1"
    using assms filter_key_le_1 [of "\<lambda>r. cell (columns right) r key" "rows right"]
    by (simp add: matches_def column_def)
  then show ?thesis
    by (cases "matches left right key l") (auto simp: merge_row_def)
qed

lemma merge_left_rows:
  assumes "merge_left left right key suffix = Inr m"
  shows "rows m = concat (map (merge_row left right key) (rows left))"
    and "columns m = columns left @
              map (\<lambda>c. if c \<in> set (columns left) then c @ suffix else c)
                (right_columns right key)"
    and "key \<in> set (columns left)" and "key \<in> set (columns right)" and "distinct (columns m)"
  using assms by (auto simp: merge_left_def Let_def split: if_splits)

lemma merge_left_length:
  assumes "merge_left left right key suffix = Inr m" and "distinct (column right key)"
  shows "length (rows m) = length (rows left)"
  using merge_left_rows(1) [OF assms(1)] length_merge_row [OF assms(2)]
  by (simp add: length_concat_singletons)

lemma map_column_Inr:
  assumes "map_column c f df = Inr df'"
  shows "columns df' = columns df"
    and "list_all2 (\<lambda>r r'. list_all2 (\<lambda>(c', v) v'. (if c' = c then f v else Inr v) = Inr v')
                              (zip (columns df) r) r') (rows df) (rows df')"
proof -
  from assms obtain rs where
    rs: "map_result (\<lambda>r. map_result (\<lambda>(c', v). if c' = c then f v else Inr v)
                            (zip (columns df) r)) (rows df) = Inr rs"
    and df': "df' = df\<lparr>rows := rs\<rparr>"
    by (auto simp: map_column_def and_then_Inr)
  show "columns df' = columns df" using df' by simp
  have "list_all2 (\<lambda>r r'. map_result (\<lambda>(c', v). if c' = c then f v else Inr v)
                            (zip (columns df) r) = Inr r') (rows df) rs"
    using map_result_Inr [OF rs] .
  then have "list_all2 (\<lambda>r r'. list_all2 (\<lambda>(c', v) v'. (if c' = c then f v else Inr v) = Inr v')
                              (zip (columns df) r) r') (rows df) rs"
    by (rule list_all2_mono) (auto dest!: map_result_Inr elim: list_all2_mono)
  then show "list_all2 (\<lambda>r r'. list_all2 (\<lambda>(c', v) v'. (if c' = c then f v else Inr v) = Inr v')
                              (zip (columns df) r) r') (rows df) (rows df')"
    using df' by simp
qed

lemma convert_if_present_length:
  "convert_if_present c f df = Inr df' \<Longrightarrow> length (rows df') = length (rows df)"
  using map_column_Inr(2) [of c f df df']
  by (auto simp: convert_if_present_def split: if_splits dest: list_all2_lengthD)

lemmas frame_defs = build_org_view_def merge_left_def merge_row_def matches_def right_columns_def
  drop_key_def cell_def convert_if_present_def map_column_def astype_int.simps
  astype_float_round2.simps round2_def trunc_def np_round_def and_then_def Let_def
  departments_frame_def job_positions_frame_def employees_frame_def employee_cells_def

lemma example_build_org_view:
  "build_org_view (departments_frame example_departments) (job_positions_frame example_positions)
     (employees_frame example_employees) = Inr example_view"
  by (simp add: frame_defs example_departments_def example_positions_def example_employees_def
        example_employee_def example_view_def)

lemma build_org_view_length:
  assumes "build_org_view departments_df job_positions_df employees_df = Inr org_view"
    and "distinct (column job_positions_df ''job_position_id'')"
    and "distinct (column departments_df ''department_id'')"
  shows "length (rows org_view) = length (rows employees_df)"
proof -
  from assms(1) obtain ep v0 v1 v2 v3 v4 where
    m1: "merge_left employees_df job_positions_df ''job_position_id'' ''_job'' = Inr ep"
    and m2: "merge_left ep departments_df ''department_id'' ''_dept'' = Inr v0"
    and c1: "convert_if_present ''employee_id'' astype_int v0 = Inr v1"
    and c2: "convert_if_present ''department_id'' astype_int v1 = Inr v2"
    and c3: "convert_if_present ''job_position_id'' astype_int v2 = Inr v3"
    and c4: "convert_if_present ''salary'' astype_float_round2 v3 = Inr v4"
    and c5: "convert_if_present ''tenure_years'' astype_float_round2 v4 = Inr org_view"
    unfolding build_org_view_def and_then_Inr by blast
  have "length (rows ep) = length (rows employees_df)"
    using merge_left_length [OF m1 assms(2)] .
  moreover have "length (rows v0) = length (rows ep)"
    using merge_left_length [OF m2 assms(3)] .
  ultimately show ?thesis
    using convert_if_present_length [OF c1] convert_if_present_length [OF c2]
      convert_if_present_length [OF c3] convert_if_present_length [OF c4]
      convert_if_present_length [OF c5]
    by simp
qed

text \<open>
  Claim C3. When \<open>job_position_id\<close> is a unique key of the positions table and
  \<open>department_id\<close> a unique key of the departments table, the view that
  \<open>_build_org_view\<close> returns has exactly as many rows as the employee table (empty or
  not).
\<close>

theorem build_org_view_row_count:
  assumes "build_org_view departments_df job_positions_df employees_df = Inr org_view"
    and "distinct (column job_positions_df ''job_position_id'')"
    and "distinct (column departments_df ''department_id'')"
  shows "length (rows org_view) = length (rows employees_df)"
  using assms by (rule build_org_view_length)

theorem build_org_view_row_count_witness:
  "build_org_view (departments_frame example_departments) (job_positions_frame example_positions)
     (employees_frame example_employees) = Inr example_view
   \<and> distinct (column (job_positions_frame example_positions) ''job_position_id'')
   \<and> distinct (column (departments_frame example_departments) ''department_id'')
   \<and> length (rows example_view) = 2
   \<and> length (rows (employees_frame example_employees)) = 2"
proof -
  have p: "distinct (column (job_positions_frame example_positions) ''job_position_id'')"
    by (simp add: column_def job_positions_frame_def example_positions_def cell_def)
  have d: "distinct (column (departments_frame example_departments) ''department_id'')"
    by (simp add: column_def departments_frame_def example_departments_def cell_def)
  from build_org_view_row_count [OF example_build_org_view p d] p d example_build_org_view
  show ?thesis by (simp add: example_view_def)
qed


section \<open>Properties of sorting\<close>










lemma and_then_simps:
  "and_then (Inr x) f = f x" "and_then (Inl e) f = Inl e"
  by (simp_all add: and_then_def)

lemma mset_insort_by: "mset (insort_by le x xs) = add_mset x (mset xs)"
  by (induction xs) auto

lemma mset_sort_by: "mset (sort_by le xs) = mset xs"
  by (induction xs) (auto simp: sort_by_def mset_insort_by)

lemma map_result_all:
  "(\<And>x. x \<in> set xs \<Longrightarrow> f x = Inr (g x)) \<Longrightarrow> map_result f xs = Inr (map g xs)"
  by (induction xs) (auto simp: and_then_def)


lemma trunc_of_int: "trunc (of_int n) = n"
  by (simp add: trunc_def)


section \<open>Properties of list_departments\<close>






section \<open>Properties of list_employees\<close>



lemma filtered_frame:
  "(let df = v;
        df = (case d of
                  Some x \<Rightarrow> if ''department_id'' \<in> set (columns df)
                            then filter_rows df ''department_id'' (NumV (of_int x)) else df
                | None \<Rightarrow> df);
        df = (case l of
                  Some y \<Rightarrow> if ''job_level'' \<in> set (columns df)
                            then filter_rows df ''job_level'' (StrV y) else df
                | None \<Rightarrow> df)
    in F df) = F (v\<lparr>rows := filter (survives v d l) (rows v)\<rparr>)"
  by (cases d; cases l) (auto simp: Let_def filter_rows_def survives_def [abs_def] intro!: arg_cong [of _ _ F])

lemma list_employees_eq:
  "list_employees srt v d l limit offset =
     and_then (sort_values srt (v\<lparr>rows := filter (survives v d l) (rows v)\<rparr>) ''employee_id'' True)
       (\<lambda>df. map_result (employee_item (columns df)) (take limit (drop offset (rows df))))"
  unfolding list_employees_def by (rule filtered_frame)














section \<open>Properties of salary_summary\<close>



lemma map_result_comp: "map_result f (map h xs) = map_result (\<lambda>x. f (h x)) xs"
  by (induction xs) simp_all







lemma map_of_zip_absent: "c \<notin> set cols \<Longrightarrow> map_of (zip cols r) c = None"
  by (auto simp: map_of_eq_None_iff dest: set_zip_leftD)

lemma cell_absent: "c \<notin> set cols \<Longrightarrow> cell cols r c = None"
  by (simp add: cell_def map_of_zip_absent)

lemma cell_append:
  assumes "length r = length cols" and "c \<noteq> c'"
  shows "cell (cols @ [c']) (r @ [x]) c = cell cols r c"
  using assms by (auto simp: cell_def map_add_def map_of_zip_absent split: option.splits)

lemma cell_append_last:
  assumes "length r = length cols" and "c' \<notin> set cols"
  shows "cell (cols @ [c']) (r @ [x]) c' = Some x"
  using assms by (auto simp: cell_def map_add_def map_of_zip_absent split: option.splits)


lemma salaries_typed:
  assumes "\<And>r. r \<in> set rs \<Longrightarrow> py_float (cell_or_null cols (ext r) ''salary'') = Inr (sal r)"
  shows "salaries cols (map ext rs) = Inr (map sal rs)"
  unfolding salaries_def map_result_comp by (rule map_result_all) (rule assms)

lemma py_float_salary_of:
  assumes "(\<exists>x. cell (columns v) r ''salary'' = Some (NumV x))
             \<or> cell (columns v) r ''salary'' = Some NullV"
  shows "py_float (cell_or_null (columns v) r ''salary'') = Inr (salary_of v r)"
  using assms by (auto simp: cell_or_null_def salary_of_def)

lemma keyed_levels:
  fixes v kf :: frame and ext :: "val list \<Rightarrow> val list"
  assumes jl: "''job_level'' \<in> set (columns kf)"
    and rws: "rows kf = map ext (rows v)"
    and key: "\<And>r. r \<in> set (rows v) \<Longrightarrow>
                cell_or_null (columns kf) (ext r) ''job_level'' = job_level_of v r"
    and sal: "\<And>r. r \<in> set (rows v) \<Longrightarrow>
                py_float (cell_or_null (columns kf) (ext r) ''salary'') = Inr (salary_of v r)"
  shows "\<exists>lvls.
           and_then (groupby kf [''job_level''])
             (\<lambda>groups. map_result
                (\<lambda>(k, rs).
                   and_then (salaries (columns kf) rs) (\<lambda>xs.
                     Inr \<lparr>level_job_level = hd k,
                          avg_salary = map_option round2 (agg_mean xs),
                          min_salary = map_option round2 (agg_min xs),
                          max_salary = map_option round2 (agg_max xs),
                          level_count = int (length rs)\<rparr>))
                groups) = Inr lvls
         \<and> mset lvls = mset (map (level_summary v) (job_levels v))"
proof -
  let ?gk = "group_key kf [''job_level'']"
  let ?jl = "job_level_of v"
  let ?keptv = "filter (\<lambda>r. ?jl r \<noteq> NullV) (rows v)"
  let ?kept = "filter (\<lambda>r. NullV \<notin> set (?gk r)) (rows kf)"
  let ?keys = "sort_by vals_le (remdups (map ?gk ?kept))"
  let ?conv = "\<lambda>(k, rs).
                   and_then (salaries (columns kf) rs) (\<lambda>xs.
                     Inr \<lparr>level_job_level = hd k,
                          avg_salary = map_option round2 (agg_mean xs),
                          min_salary = map_option round2 (agg_min xs),
                          max_salary = map_option round2 (agg_max xs),
                          level_count = int (length rs)\<rparr>)"
  have gk: "?gk (ext r) = [?jl r]" if "r \<in> set (rows v)" for r
    using key [OF that] by (simp add: group_key_def)
  have kept: "?kept = map ext ?keptv"
    unfolding rws filter_map comp_def
    by (rule arg_cong [of _ _ "map ext"], rule filter_cong) (auto simp: gk)
  have mk: "map ?gk ?kept = map (\<lambda>r. [?jl r]) ?keptv"
    unfolding kept using gk by simp
  have grp: "groupby kf [''job_level''] =
               Inr (map (\<lambda>k. (k, filter (\<lambda>r. ?gk r = k) ?kept)) ?keys)"
    using jl by (simp add: groupby_def Let_def)
  have set_keys: "set ?keys = (\<lambda>j. [j]) ` set (job_levels v)"
  proof -
    have "set ?keys = set (map ?gk ?kept)"
      by (metis mset_sort_by set_mset_mset set_remdups)
    also have "\<dots> = (\<lambda>r. [?jl r]) ` set ?keptv" by (simp add: mk)
    also have "\<dots> = (\<lambda>j. [j]) ` set (job_levels v)"
      by (auto simp: job_levels_def image_iff)
    finally show ?thesis .
  qed
  have "distinct ?keys = distinct (remdups (map ?gk ?kept))"
    by (rule mset_eq_imp_distinct_iff) (rule mset_sort_by)
  then have dist_keys: "distinct ?keys" by simp
  have mset_keys: "mset ?keys = mset (map (\<lambda>j. [j]) (job_levels v))"
  proof -
    have "distinct (map (\<lambda>j. [j]) (job_levels v))"
      by (simp add: distinct_map job_levels_def inj_on_def)
    moreover have "set ?keys = set (map (\<lambda>j. [j]) (job_levels v))"
      using set_keys by simp
    ultimately show ?thesis
      using dist_keys by (simp only: set_eq_iff_mset_eq_distinct)
  qed
  have conv: "?conv (k, filter (\<lambda>r. ?gk r = k) ?kept) = Inr (level_summary v (hd k))"
    if "k \<in> set ?keys" for k
  proof -
    from that set_keys obtain j where k: "k = [j]" and j: "j \<in> set (job_levels v)" by auto
    from j have nn: "j \<noteq> NullV" by (simp add: job_levels_def)
    let ?rs = "filter (\<lambda>r. ?jl r = j) (rows v)"
    have "filter (\<lambda>r. ?gk r = k) ?kept = map ext (filter (\<lambda>r. ?jl r = j) ?keptv)"
      unfolding kept filter_map comp_def
      by (rule arg_cong [of _ _ "map ext"], rule filter_cong) (auto simp: gk k)
    also have "filter (\<lambda>r. ?jl r = j) ?keptv = ?rs"
      using nn by (auto intro: filter_cong)
    finally have grp_rows: "filter (\<lambda>r. ?gk r = k) ?kept = map ext ?rs" .
    have sl: "salaries (columns kf) (map ext ?rs) = Inr (map (salary_of v) ?rs)"
      by (rule salaries_typed) (simp add: sal)
    have "?conv (k, filter (\<lambda>r. ?gk r = k) ?kept) =
            Inr \<lparr>level_job_level = hd k,
                 avg_salary = map_option round2 (agg_mean (map (salary_of v) ?rs)),
                 min_salary = map_option round2 (agg_min (map (salary_of v) ?rs)),
                 max_salary = map_option round2 (agg_max (map (salary_of v) ?rs)),
                 level_count = int (length (map ext ?rs))\<rparr>"
      by (simp only: prod.case grp_rows sl and_then_simps)
    then show ?thesis
      by (simp add: level_summary_def Let_def k)
  qed
  have "map_result ?conv (map (\<lambda>k. (k, filter (\<lambda>r. ?gk r = k) ?kept)) ?keys) =
          Inr (map (\<lambda>k. level_summary v (hd k)) ?keys)"
    unfolding map_result_comp by (rule map_result_all) (rule conv)
  then have res: "and_then (groupby kf [''job_level'']) (\<lambda>groups. map_result ?conv groups) =
          Inr (map (\<lambda>k. level_summary v (hd k)) ?keys)"
    by (simp only: grp and_then_simps)
  have "mset (map (\<lambda>k. level_summary v (hd k)) ?keys) =
          image_mset (\<lambda>k. level_summary v (hd k)) (mset ?keys)" by simp
  also have "\<dots> = mset (map (level_summary v) (job_levels v))"
    by (simp only: mset_keys) (simp add: multiset.map_comp comp_def)
  finally show ?thesis using res by blast
qed


lemma and_then_assoc:
  "and_then (and_then r f) g = and_then r (\<lambda>x. and_then (f x) g)"
  by (cases r) (simp_all add: and_then_def)

lemma salary_summary_typed:
  assumes sal: "''salary'' \<in> set (columns v)" and rect: "rectangular v"
    and typed: "\<forall>r \<in> set (rows v). (\<exists>x. cell (columns v) r ''salary'' = Some (NumV x))
                  \<or> cell (columns v) r ''salary'' = Some NullV"
  shows "\<exists>lvls. salary_summary v =
           Inr \<lparr>overall_avg_salary = map_option round2 (agg_mean (map (salary_of v) (rows v))),
                overall_min_salary = map_option round2 (agg_min (map (salary_of v) (rows v))),
                overall_max_salary = map_option round2 (agg_max (map (salary_of v) (rows v))),
                levels = lvls\<rparr>
         \<and> mset lvls = mset (map (level_summary v) (job_levels v))"
proof -
  let ?kf = "if ''job_level'' \<in> set (columns v) then v else assign_job_level v"
  let ?ext = "\<lambda>r. if ''job_level'' \<in> set (columns v) then r else r @ [StrV ''N/A'']"
  let ?conv = "\<lambda>(k, rs).
                   and_then (salaries (columns ?kf) rs) (\<lambda>xs.
                     Inr \<lparr>level_job_level = hd k,
                          avg_salary = map_option round2 (agg_mean xs),
                          min_salary = map_option round2 (agg_min xs),
                          max_salary = map_option round2 (agg_max xs),
                          level_count = int (length rs)\<rparr>)"
  have len: "length r = length (columns v)" if "r \<in> set (rows v)" for r
    using rect that by (simp add: rectangular_def list_all_iff)
  have pf: "py_float (cell_or_null (columns v) r ''salary'') = Inr (salary_of v r)"
    if "r \<in> set (rows v)" for r
    by (rule py_float_salary_of) (use typed that in blast)
  have 1: "''job_level'' \<in> set (columns ?kf)" by (simp add: assign_job_level_def)
  have 2: "rows ?kf = map ?ext (rows v)" by (simp add: assign_job_level_def)
  have 3: "cell_or_null (columns ?kf) (?ext r) ''job_level'' = job_level_of v r"
    if "r \<in> set (rows v)" for r
    using len [OF that]
    by (simp add: job_level_of_def assign_job_level_def cell_or_null_def cell_append_last)
  have 4: "py_float (cell_or_null (columns ?kf) (?ext r) ''salary'') = Inr (salary_of v r)"
    if "r \<in> set (rows v)" for r
    using len [OF that] pf [OF that]
    by (simp add: assign_job_level_def cell_or_null_def cell_append)
  from keyed_levels [of ?kf ?ext v, OF 1 2 3 4] obtain lvls where
    lv: "and_then (groupby ?kf [''job_level'']) (\<lambda>groups. map_result ?conv groups) = Inr lvls"
    and ms: "mset lvls = mset (map (level_summary v) (job_levels v))"
    by blast
  have ov: "salaries (columns v) (rows v) = Inr (map (salary_of v) (rows v))"
    using salaries_typed [of "rows v" "columns v" "\<lambda>r. r" "salary_of v"] pf by simp
  have "salary_summary v =
          and_then (and_then (groupby ?kf [''job_level'']) (\<lambda>groups. map_result ?conv groups))
            (\<lambda>levels.
              and_then (salaries (columns v) (rows v)) (\<lambda>xs.
                Inr \<lparr>overall_avg_salary = map_option round2 (agg_mean xs),
                     overall_min_salary = map_option round2 (agg_min xs),
                     overall_max_salary = map_option round2 (agg_max xs),
                     levels = levels\<rparr>))"
    unfolding salary_summary_def Let_def and_then_assoc using sal by simp
  then have "salary_summary v =
           Inr \<lparr>overall_avg_salary = map_option round2 (agg_mean (map (salary_of v) (rows v))),
                overall_min_salary = map_option round2 (agg_min (map (salary_of v) (rows v))),
                overall_max_salary = map_option round2 (agg_max (map (salary_of v) (rows v))),
                levels = lvls\<rparr>"
    by (simp only: lv ov and_then_simps)
  with ms show ?thesis by blast
qed




lemma remdups_replicate_eq: "remdups (replicate n x) = (if n = 0 then [] else [x])"
  by (induction n) auto

lemma job_levels_absent:
  assumes "''job_level'' \<notin> set (columns v)"
  shows "job_levels v = (if rows v = [] then [] else [StrV ''N/A''])"
proof -
  have "map (job_level_of v) (rows v) = replicate (length (rows v)) (StrV ''N/A'')"
    using assms by (simp add: job_level_of_def [abs_def] map_replicate_const)
  then show ?thesis by (simp add: job_levels_def remdups_replicate_eq)
qed





section \<open>The view built from the generated tables\<close>

lemma is_num_iff: "is_num w \<longleftrightarrow> (\<exists>x. w = Some (NumV x))"
  by (cases w rule: is_num.cases) simp_all

lemma numeric_columnD:
  "numeric_column df c \<Longrightarrow> r \<in> set (rows df) \<Longrightarrow> \<exists>x. cell (columns df) r c = Some (NumV x)"
  by (simp add: numeric_column_def list_all_iff is_num_iff)

lemma numeric_columnI:
  "(\<And>r. r \<in> set (rows df) \<Longrightarrow> \<exists>x. cell (columns df) r c = Some (NumV x))
     \<Longrightarrow> numeric_column df c"
  by (simp add: numeric_column_def list_all_iff is_num_iff)

lemma rectangularD:
  "rectangular df \<Longrightarrow> r \<in> set (rows df) \<Longrightarrow> length r = length (columns df)"
  by (simp add: rectangular_def list_all_iff)

lemma length_filter_zip:
  "length cols = length r \<Longrightarrow>
     length (filter (\<lambda>(c, v). P c) (zip cols r)) = length (filter P cols)"
  by (induction cols r rule: list_induct2) auto

lemma length_drop_key:
  "length r = length (columns right) \<Longrightarrow>
     length (drop_key right key r) = length (right_columns right key)"
  by (simp add: drop_key_def right_columns_def length_filter_zip)

lemma merge_row_form:
  assumes "rectangular right" and "r \<in> set (merge_row left right key l)"
  shows "\<exists>t. r = l @ t \<and> length t = length (right_columns right key)"
proof (cases "matches left right key l = []")
  case True
  with assms(2) show ?thesis by (simp add: merge_row_def)
next
  case False
  with assms(2) obtain p where p: "p \<in> set (matches left right key l)"
    and r: "r = l @ drop_key right key p"
    by (auto simp: merge_row_def)
  from p have "p \<in> set (rows right)" by (simp add: matches_def)
  with assms(1) have "length p = length (columns right)" by (rule rectangularD)
  with r show ?thesis by (simp add: length_drop_key)
qed

lemma cell_prefix:
  assumes "length l = length cols" and "c \<in> set cols"
  shows "cell (cols @ cols2) (l @ t) c = cell cols l c"
proof -
  from assms obtain w where "map_of (zip cols l) c = Some w"
    by (metis map_of_zip_is_Some)
  then show ?thesis using assms(1) by (simp add: cell_def map_add_def)
qed

lemma merge_left_props:
  assumes m: "merge_left left right key suffix = Inr m"
    and rl: "rectangular left" and rr: "rectangular right"
  shows "rectangular m"
    and "c \<in> set (columns left) \<Longrightarrow> numeric_column left c \<Longrightarrow> numeric_column m c"
proof -
  note mr = merge_left_rows [OF m]
  have form: "\<exists>l t. l \<in> set (rows left) \<and> r = l @ t \<and> length t = length (right_columns right key)"
    if "r \<in> set (rows m)" for r
  proof -
    from that obtain l where l: "l \<in> set (rows left)" and "r \<in> set (merge_row left right key l)"
      by (auto simp: mr(1))
    from merge_row_form [OF rr this(2)] l show ?thesis by blast
  qed
  show "rectangular m"
    unfolding rectangular_def list_all_iff
  proof
    fix r assume "r \<in> set (rows m)"
    from form [OF this] obtain l t where "l \<in> set (rows left)" "r = l @ t"
      "length t = length (right_columns right key)" by blast
    then show "length r = length (columns m)"
      using rectangularD [OF rl] by (simp add: mr(2))
  qed
  show "numeric_column m c" if c: "c \<in> set (columns left)" and n: "numeric_column left c"
  proof (rule numeric_columnI)
    fix r assume "r \<in> set (rows m)"
    from form [OF this] obtain l t where l: "l \<in> set (rows left)" and r: "r = l @ t" by blast
    have "cell (columns m) r c = cell (columns left) l c"
      unfolding mr(2) r using rectangularD [OF rl l] c by (rule cell_prefix)
    with numeric_columnD [OF n l] show "\<exists>x. cell (columns m) r c = Some (NumV x)" by simp
  qed
qed


lemma zip_map_zip:
  "zip cols (map h (zip cols r)) = map (\<lambda>(c, v). (c, h (c, v))) (zip cols r)"
proof (induction cols arbitrary: r)
  case Nil
  then show ?case by simp
next
  case (Cons c cols)
  then show ?case by (cases r) simp_all
qed

lemma map_of_map_keyed:
  "map_of (map (\<lambda>(c, v). (c, h (c, v))) xs) k = map_option (\<lambda>v. h (k, v)) (map_of xs k)"
  by (induction xs) auto

lemma cell_map_zip:
  "cell cols (map h (zip cols r)) k = map_option (\<lambda>v. h (k, v)) (cell cols r k)"
  by (simp add: cell_def zip_map_zip map_of_map_keyed)

lemma cell_of_zip:
  assumes "distinct cols" and "(c, v) \<in> set (zip cols r)"
  shows "cell cols r c = Some v"
proof -
  have "distinct (map fst (zip cols r))"
    using assms(1) by (simp add: map_fst_zip_take)
  then show ?thesis using assms(2) by (simp add: cell_def)
qed

lemma map_column_props:
  assumes d: "distinct (columns df)" and rect: "rectangular df"
    and num: "numeric_column df c" and f: "\<And>x. \<exists>y. f (NumV x) = Inr (NumV y)"
  shows "\<exists>df'. map_column c f df = Inr df' \<and> columns df' = columns df \<and> rectangular df'
           \<and> length (rows df') = length (rows df)
           \<and> (\<forall>c'. numeric_column df c' \<longrightarrow> numeric_column df' c')"
proof -
  define g where "g v = (case f v of Inr w \<Rightarrow> w | Inl e \<Rightarrow> v)" for v
  define h where "h = (\<lambda>(c', v). if c' = c then g v else v)"
  define upd where "upd r = map h (zip (columns df) r)" for r
  have gnum: "\<exists>y. f (NumV x) = Inr (NumV y) \<and> g (NumV x) = NumV y" for x
    using f [of x] by (auto simp: g_def)
  have inner: "map_result (\<lambda>(c', v). if c' = c then f v else Inr v) (zip (columns df) r)
                 = Inr (upd r)" if r: "r \<in> set (rows df)" for r
    unfolding upd_def
  proof (rule map_result_all)
    fix p assume p: "p \<in> set (zip (columns df) r)"
    obtain c' v where cv: "p = (c', v)" by (cases p)
    show "(case p of (c', v) \<Rightarrow> if c' = c then f v else Inr v) = Inr (h p)"
    proof (cases "c' = c")
      case True
      with p cv have "cell (columns df) r c = Some v" using d by (simp add: cell_of_zip)
      with numeric_columnD [OF num r] obtain x where "v = NumV x" by auto
      with gnum [of x] True cv show ?thesis by (auto simp: h_def)
    next
      case False
      with cv show ?thesis by (simp add: h_def)
    qed
  qed
  have res: "map_column c f df = Inr (df\<lparr>rows := map upd (rows df)\<rparr>)"
  proof -
    have "map_result
            (\<lambda>r. map_result (\<lambda>(c', v). if c' = c then f v else Inr v) (zip (columns df) r))
            (rows df) = Inr (map upd (rows df))"
      by (rule map_result_all) (rule inner)
    then show ?thesis by (simp add: map_column_def and_then_simps)
  qed
  have rect': "rectangular (df\<lparr>rows := map upd (rows df)\<rparr>)"
    using rect by (auto simp: rectangular_def list_all_iff upd_def)
  have num': "numeric_column (df\<lparr>rows := map upd (rows df)\<rparr>) c'"
    if n: "numeric_column df c'" for c'
  proof (rule numeric_columnI)
    fix r' assume "r' \<in> set (rows (df\<lparr>rows := map upd (rows df)\<rparr>))"
    then obtain r where r: "r \<in> set (rows df)" and r': "r' = upd r" by auto
    from numeric_columnD [OF n r] obtain x where x: "cell (columns df) r c' = Some (NumV x)"
      by blast
    have "cell (columns df) r' c' = Some (h (c', NumV x))"
      by (simp add: r' upd_def cell_map_zip x)
    moreover have "\<exists>y. h (c', NumV x) = NumV y"
      using gnum [of x] by (auto simp: h_def)
    ultimately show "\<exists>x. cell (columns (df\<lparr>rows := map upd (rows df)\<rparr>)) r' c' = Some (NumV x)"
      by simp
  qed
  from res rect' num' show ?thesis by simp
qed

lemma convert_if_present_props:
  assumes d: "distinct (columns df)" and rect: "rectangular df"
    and num: "numeric_column df c" and f: "\<And>x. \<exists>y. f (NumV x) = Inr (NumV y)"
  shows "\<exists>df'. convert_if_present c f df = Inr df' \<and> columns df' = columns df
           \<and> rectangular df' \<and> length (rows df') = length (rows df)
           \<and> (\<forall>c'. numeric_column df c' \<longrightarrow> numeric_column df' c')"
proof (cases "c \<in> set (columns df)")
  case True
  then show ?thesis
    using map_column_props [of df c f, OF d rect num f] by (simp add: convert_if_present_def)
next
  case False
  then show ?thesis using rect by (simp add: convert_if_present_def)
qed


lemma astype_int_num: "\<exists>y. astype_int (NumV x) = Inr (NumV y)"
  by simp

lemma astype_float_round2_num: "\<exists>y. astype_float_round2 (NumV x) = Inr (NumV y)"
  by simp

lemma convert_int_props:
  assumes "distinct (columns df)" and "rectangular df" and "numeric_column df c"
  shows "\<exists>df'. convert_if_present c astype_int df = Inr df' \<and> columns df' = columns df
           \<and> rectangular df' \<and> length (rows df') = length (rows df)
           \<and> (\<forall>c'. numeric_column df c' \<longrightarrow> numeric_column df' c')"
  using assms by (rule convert_if_present_props) (rule astype_int_num)

lemma convert_float_props:
  assumes "distinct (columns df)" and "rectangular df" and "numeric_column df c"
  shows "\<exists>df'. convert_if_present c astype_float_round2 df = Inr df' \<and> columns df' = columns df
           \<and> rectangular df' \<and> length (rows df') = length (rows df)
           \<and> (\<forall>c'. numeric_column df c' \<longrightarrow> numeric_column df' c')"
  using assms by (rule convert_if_present_props) (rule astype_float_round2_num)

lemma employees_frame_props:
  assumes "es \<noteq> []"
  shows "rectangular (employees_frame es)"
    and "numeric_column (employees_frame es) ''employee_id''"
    and "numeric_column (employees_frame es) ''department_id''"
    and "numeric_column (employees_frame es) ''job_position_id''"
    and "numeric_column (employees_frame es) ''salary''"
    and "numeric_column (employees_frame es) ''tenure_years''"
  using assms
  by (simp_all add: employees_frame_def rectangular_def numeric_column_def list_all_iff
        employee_cells_def cell_def)

lemma build_org_view_generated:
  assumes ds: "ds \<noteq> []" and ps: "ps \<noteq> []" and es: "es \<noteq> []"
  shows "\<exists>v. build_org_view (departments_frame ds) (job_positions_frame ps) (employees_frame es)
               = Inr v
           \<and> columns v =
               [''employee_id'', ''first_name'', ''last_name'', ''department_id'',
                ''job_position_id'', ''seniority_level'', ''birth_date'', ''hire_date'', ''age'',
                ''tenure_years'', ''salary'', ''department_id_job'', ''position_name'',
                ''seniority_level_job'', ''department_name'', ''department_type'',
                ''headcount_weight'']
           \<and> rectangular v \<and> numeric_column v ''salary''"
proof -
  let ?E = "employees_frame es" and ?P = "job_positions_frame ps" and ?D = "departments_frame ds"
  let ?c14 = "[''employee_id'', ''first_name'', ''last_name'', ''department_id'',
                ''job_position_id'', ''seniority_level'', ''birth_date'', ''hire_date'', ''age'',
                ''tenure_years'', ''salary'', ''department_id_job'', ''position_name'',
                ''seniority_level_job'']"
  let ?c17 = "?c14 @ [''department_name'', ''department_type'', ''headcount_weight'']"
  let ?EP = "\<lparr>columns = ?c14,
              rows = concat (map (merge_row ?E ?P ''job_position_id'') (rows ?E))\<rparr>"
  let ?V = "\<lparr>columns = ?c17,
              rows = concat (map (merge_row ?EP ?D ''department_id'') (rows ?EP))\<rparr>"
  note ep = employees_frame_props [OF es]
  have rP: "rectangular ?P" using ps
    by (simp add: job_positions_frame_def rectangular_def list_all_iff)
  have rD: "rectangular ?D" using ds
    by (simp add: departments_frame_def rectangular_def list_all_iff)
  have cE: "columns ?E = [''employee_id'', ''first_name'', ''last_name'', ''department_id'',
                ''job_position_id'', ''seniority_level'', ''birth_date'', ''hire_date'', ''age'',
                ''tenure_years'', ''salary'']"
    using es by (simp add: employees_frame_def)
  have m1: "merge_left ?E ?P ''job_position_id'' ''_job'' = Inr ?EP"
    using ps by (simp add: merge_left_def cE job_positions_frame_def right_columns_def Let_def)
  note p1 = merge_left_props [OF m1 ep(1) rP]
  have m2: "merge_left ?EP ?D ''department_id'' ''_dept'' = Inr ?V"
    using ds by (simp add: merge_left_def departments_frame_def right_columns_def Let_def)
  note p2 = merge_left_props [OF m2 p1(1) rD]
  have n0: "numeric_column ?V ''employee_id''" "numeric_column ?V ''department_id''"
    "numeric_column ?V ''job_position_id''" "numeric_column ?V ''salary''"
    "numeric_column ?V ''tenure_years''"
  proof -
    have n1: "numeric_column ?EP c" if "c \<in> set (columns ?E)" "numeric_column ?E c" for c
      using that by (rule p1(2))
    have n2: "numeric_column ?V c" if "c \<in> set (columns ?EP)" "numeric_column ?EP c" for c
      using that by (rule p2(2))
    show "numeric_column ?V ''employee_id''"
      by (rule n2, simp, rule n1, simp add: cE, rule ep(2))
    show "numeric_column ?V ''department_id''"
      by (rule n2, simp, rule n1, simp add: cE, rule ep(3))
    show "numeric_column ?V ''job_position_id''"
      by (rule n2, simp, rule n1, simp add: cE, rule ep(4))
    show "numeric_column ?V ''salary''"
      by (rule n2, simp, rule n1, simp add: cE, rule ep(5))
    show "numeric_column ?V ''tenure_years''"
      by (rule n2, simp, rule n1, simp add: cE, rule ep(6))
  qed
  have dV: "distinct (columns ?V)" by simp
  from convert_int_props [OF dV p2(1) n0(1)] obtain v1 where
    c1: "convert_if_present ''employee_id'' astype_int ?V = Inr v1"
    and k1: "columns v1 = columns ?V" "rectangular v1"
      "\<forall>c'. numeric_column ?V c' \<longrightarrow> numeric_column v1 c'"
    by blast
  have d1: "distinct (columns v1)" using k1(1) by simp
  have n1: "numeric_column v1 ''department_id''" using k1(3) n0 by blast
  from convert_int_props [OF d1 k1(2) n1]
  obtain v2 where
    c2: "convert_if_present ''department_id'' astype_int v1 = Inr v2"
    and k2: "columns v2 = columns v1" "rectangular v2"
      "\<forall>c'. numeric_column v1 c' \<longrightarrow> numeric_column v2 c'"
    by blast
  have d2: "distinct (columns v2)" using k2(1) k1(1) by simp
  have n2: "numeric_column v2 ''job_position_id''" using k1(3) k2(3) n0 by blast
  from convert_int_props [OF d2 k2(2) n2]
  obtain v3 where
    c3: "convert_if_present ''job_position_id'' astype_int v2 = Inr v3"
    and k3: "columns v3 = columns v2" "rectangular v3"
      "\<forall>c'. numeric_column v2 c' \<longrightarrow> numeric_column v3 c'"
    by blast
  have d3: "distinct (columns v3)" using k3(1) k2(1) k1(1) by simp
  have n3: "numeric_column v3 ''salary''" using k1(3) k2(3) k3(3) n0 by blast
  from convert_float_props [OF d3 k3(2) n3]
  obtain v4 where
    c4: "convert_if_present ''salary'' astype_float_round2 v3 = Inr v4"
    and k4: "columns v4 = columns v3" "rectangular v4"
      "\<forall>c'. numeric_column v3 c' \<longrightarrow> numeric_column v4 c'"
    by blast
  have d4: "distinct (columns v4)" using k4(1) k3(1) k2(1) k1(1) by simp
  have n4: "numeric_column v4 ''tenure_years''" using k1(3) k2(3) k3(3) k4(3) n0 by blast
  from convert_float_props [OF d4 k4(2) n4]
  obtain v5 where
    c5: "convert_if_present ''tenure_years'' astype_float_round2 v4 = Inr v5"
    and k5: "columns v5 = columns v4" "rectangular v5"
      "\<forall>c'. numeric_column v4 c' \<longrightarrow> numeric_column v5 c'"
    by blast
  have "build_org_view ?D ?P ?E = Inr v5"
    unfolding build_org_view_def by (simp only: m1 m2 c1 c2 c3 c4 c5 and_then_simps)
  moreover have "columns v5 = ?c17" using k5(1) k4(1) k3(1) k2(1) k1(1) by simp
  moreover have "numeric_column v5 ''salary''" using k5(3) k4(3) n3 by blast
  ultimately show ?thesis using k5(2) by simp
qed


lemma generate_job_positions_eq: "generate_job_positions ds = cross_product_positions ds"
  by (simp add: generate_job_positions_def cross_product_positions_def dept_loop_eq)

lemma generate_job_positions_ids:
  "map job_position_id (generate_job_positions ds) = map (\<lambda>k. int k + 1) [0..<5 * length ds]"
  by (simp add: generate_job_positions_eq cross_product_positions_def position_at_def comp_def)

lemma distinct_job_position_ids: "distinct (map job_position_id (generate_job_positions ds))"
  unfolding generate_job_positions_ids by (simp add: distinct_map inj_on_def)

lemma length_generate_job_positions: "length (generate_job_positions ds) = 5 * length ds"
  by (simp add: generate_job_positions_eq cross_product_positions_def)

lemma generate_departments_ids: "map department_id generate_departments = [1, 2, 3, 4, 5, 6, 7]"
  by (simp add: generate_departments_def departments_def)

lemma distinct_position_key:
  assumes "distinct (map job_position_id ps)"
  shows "distinct (column (job_positions_frame ps) ''job_position_id'')"
proof (cases "ps = []")
  case True
  then show ?thesis by (simp add: column_def job_positions_frame_def)
next
  case False
  then have "column (job_positions_frame ps) ''job_position_id'' =
               map (\<lambda>i. Some (NumV (of_int i))) (map job_position_id ps)"
    by (simp add: column_def job_positions_frame_def cell_def comp_def)
  then show ?thesis using assms by (simp add: distinct_map inj_on_def)
qed

lemma distinct_department_key:
  assumes "distinct (map department_id ds)"
  shows "distinct (column (departments_frame ds) ''department_id'')"
proof (cases "ds = []")
  case True
  then show ?thesis by (simp add: column_def departments_frame_def)
next
  case False
  then have "column (departments_frame ds) ''department_id'' =
               map (\<lambda>i. Some (NumV (of_int i))) (map department_id ds)"
    by (simp add: column_def departments_frame_def cell_def comp_def)
  then show ?thesis using assms by (simp add: distinct_map inj_on_def)
qed

lemma sort_values_columns:
  "sort_values srt df by ascending = Inr df' \<Longrightarrow> columns df' = columns df"
  by (auto simp: sort_values_def and_then_Inr split: if_splits)

lemma map_result_mem:
  "map_result f xs = Inr ys \<Longrightarrow> y \<in> set ys \<Longrightarrow> \<exists>x \<in> set xs. f x = Inr y"
  by (induction xs arbitrary: ys) (auto simp: and_then_Inr)

lemma list_employees_items:
  assumes "list_employees srt v d l limit offset = Inr items" and "it \<in> set items"
  shows "\<exists>r. employee_item (columns v) r = Inr it"
proof -
  from assms(1) obtain sdf where
    sv: "sort_values srt (v\<lparr>rows := filter (survives v d l) (rows v)\<rparr>) ''employee_id'' True
           = Inr sdf"
    and m: "map_result (employee_item (columns sdf)) (take limit (drop offset (rows sdf)))
              = Inr items"
    by (auto simp: list_employees_eq and_then_Inr)
  have c: "columns sdf = columns v" using sort_values_columns [OF sv] by simp
  from map_result_mem [OF m assms(2)] obtain r where "employee_item (columns sdf) r = Inr it"
    by blast
  then show ?thesis by (auto simp: c)
qed

lemma employee_item_optional:
  assumes "employee_item cols r = Inr it"
  shows "item_job_title it = cell cols r ''job_title''"
    and "item_job_level it = cell cols r ''job_level''"
  using assms by (auto simp: employee_item_def and_then_Inr)

lemma list_employees_skip_job_level:
  assumes "''job_level'' \<notin> set (columns v)"
  shows "list_employees srt v d (Some l) limit offset = list_employees srt v d None limit offset"
  using assms by (cases d) (simp_all add: list_employees_def filter_rows_def Let_def)


lemma generate_employees_length:
  assumes "generate_employees rng y ds ps n = Inr es"
  shows "length es = n"
  using generate_employees_Inr [OF assms] by auto

lemma example_generated:
  "generate_employees example_rng 2025 generate_departments
     (generate_job_positions generate_departments) 1 =
   Inr [example_employee\<lparr>emp_job_position_id := 1\<rparr>]"
  by (simp add: generator_defs example_rng_def example_employee_def generate_job_positions_def
        generate_departments_def departments_def)

text \<open>
  Claim C10. For the departments of \<open>generate_departments\<close>, the positions that
  \<open>generate_job_positions\<close> derives from them and any non-empty employee table returned
  by \<open>generate_employees\<close>, \<open>_build_org_view\<close> returns a view with one row per
  employee that has no column \<open>job_title\<close> and no column \<open>job_level\<close> (the position
  columns are \<open>position_name\<close> and \<open>seniority_level_job\<close>). Hence, for every request,
  the \<open>job_level\<close> parameter of \<open>list_employees\<close> changes nothing, every returned
  employee record has no \<open>job_title\<close> and no \<open>job_level\<close>, and \<open>salary_summary\<close>
  returns the single level "N/A", which counts all rows.
\<close>

theorem org_view_has_no_job_level:
  assumes gen: "generate_employees rng today_year generate_departments
                  (generate_job_positions generate_departments) n = Inr es"
    and n: "0 < n"
  shows "\<exists>v. build_org_view (departments_frame generate_departments)
               (job_positions_frame (generate_job_positions generate_departments))
               (employees_frame es) = Inr v
           \<and> length (rows v) = n
           \<and> ''job_title'' \<notin> set (columns v) \<and> ''job_level'' \<notin> set (columns v)
           \<and> ''position_name'' \<in> set (columns v)
           \<and> ''seniority_level_job'' \<in> set (columns v)
           \<and> (\<forall>srt d l limit offset.
                 list_employees srt v d (Some l) limit offset =
                   list_employees srt v d None limit offset)
           \<and> (\<forall>srt d l limit offset items.
                 list_employees srt v d l limit offset = Inr items \<longrightarrow>
                 (\<forall>it \<in> set items. item_job_title it = None \<and> item_job_level it = None))
           \<and> (\<exists>resp. salary_summary v = Inr resp
                  \<and> levels resp = [level_summary v (StrV ''N/A'')]
                  \<and> level_job_level (level_summary v (StrV ''N/A'')) = StrV ''N/A''
                  \<and> level_count (level_summary v (StrV ''N/A'')) = int n)"
proof -
  let ?ds = generate_departments
  let ?ps = "generate_job_positions ?ds"
  have ds: "?ds \<noteq> []" by (simp add: generate_departments_def departments_def)
  have "length ?ps = 35"
    by (simp add: length_generate_job_positions generate_departments_def departments_def)
  then have ps: "?ps \<noteq> []" by auto
  have len: "length es = n" using gen by (rule generate_employees_length)
  with n have es: "es \<noteq> []" by auto
  from build_org_view_generated [OF ds ps es] obtain v where
    b: "build_org_view (departments_frame ?ds) (job_positions_frame ?ps) (employees_frame es)
          = Inr v"
    and c: "columns v =
               [''employee_id'', ''first_name'', ''last_name'', ''department_id'',
                ''job_position_id'', ''seniority_level'', ''birth_date'', ''hire_date'', ''age'',
                ''tenure_years'', ''salary'', ''department_id_job'', ''position_name'',
                ''seniority_level_job'', ''department_name'', ''department_type'',
                ''headcount_weight'']"
    and r: "rectangular v" and s: "numeric_column v ''salary''"
    by blast
  have kp: "distinct (column (job_positions_frame ?ps) ''job_position_id'')"
    by (rule distinct_position_key) (rule distinct_job_position_ids)
  have kd: "distinct (column (departments_frame ?ds) ''department_id'')"
    by (rule distinct_department_key) (simp add: generate_departments_ids)
  have rows: "length (rows v) = n"
    using build_org_view_length [OF b kp kd] es len by (simp add: employees_frame_def)
  have jt: "''job_title'' \<notin> set (columns v)" and jl: "''job_level'' \<notin> set (columns v)"
    and pn: "''position_name'' \<in> set (columns v)"
    and sl: "''seniority_level_job'' \<in> set (columns v)"
    and sal: "''salary'' \<in> set (columns v)"
    by (simp_all add: c)
  have skip: "list_employees srt v d (Some l) limit offset =
                list_employees srt v d None limit offset" for srt d l limit offset
    using jl by (rule list_employees_skip_job_level)
  have null: "item_job_title it = None \<and> item_job_level it = None"
    if "list_employees srt v d l limit offset = Inr items" "it \<in> set items"
    for srt d l limit offset items it
  proof -
    from list_employees_items [OF that] obtain row where
      "employee_item (columns v) row = Inr it" by blast
    from employee_item_optional [OF this] show ?thesis
      using jt jl by (simp add: cell_absent)
  qed
  have typed: "\<forall>r \<in> set (rows v). (\<exists>x. cell (columns v) r ''salary'' = Some (NumV x))
                  \<or> cell (columns v) r ''salary'' = Some NullV"
    using numeric_columnD [OF s] by blast
  from salary_summary_typed [OF sal r typed] obtain lvls where
    resp: "salary_summary v =
           Inr \<lparr>overall_avg_salary = map_option round2 (agg_mean (map (salary_of v) (rows v))),
                overall_min_salary = map_option round2 (agg_min (map (salary_of v) (rows v))),
                overall_max_salary = map_option round2 (agg_max (map (salary_of v) (rows v))),
                levels = lvls\<rparr>"
    and m: "mset lvls = mset (map (level_summary v) (job_levels v))"
    by blast
  have rne: "rows v \<noteq> []" using rows n by auto
  have lv: "lvls = [level_summary v (StrV ''N/A'')]"
    using m rne by (simp add: job_levels_absent [OF jl])
  have cnt: "level_count (level_summary v (StrV ''N/A'')) = int n"
    using jl rows by (simp add: level_summary_def job_level_of_def Let_def)
  have name: "level_job_level (level_summary v (StrV ''N/A'')) = StrV ''N/A''"
    by (simp add: level_summary_def Let_def)
  have summary: "\<exists>resp. salary_summary v = Inr resp
                  \<and> levels resp = [level_summary v (StrV ''N/A'')]
                  \<and> level_job_level (level_summary v (StrV ''N/A'')) = StrV ''N/A''
                  \<and> level_count (level_summary v (StrV ''N/A'')) = int n"
    using resp lv cnt name by simp
  from b rows jt jl pn sl skip null summary show ?thesis by blast
qed


theorem org_view_has_no_job_level_witness:
  "generate_employees example_rng 2025 generate_departments
     (generate_job_positions generate_departments) 1 =
   Inr [example_employee\<lparr>emp_job_position_id := 1\<rparr>]
   \<and> (\<exists>v. build_org_view (departments_frame generate_departments)
               (job_positions_frame (generate_job_positions generate_departments))
               (employees_frame [example_employee\<lparr>emp_job_position_id := 1\<rparr>]) = Inr v
           \<and> length (rows v) = 1
           \<and> ''job_title'' \<notin> set (columns v) \<and> ''job_level'' \<notin> set (columns v)
           \<and> list_employees stable_argsort v None (Some ''Senior'') 100 0 =
               list_employees stable_argsort v None None 100 0
           \<and> (\<exists>resp. salary_summary v = Inr resp
                  \<and> levels resp = [level_summary v (StrV ''N/A'')]
                  \<and> level_count (level_summary v (StrV ''N/A'')) = 1))"
proof -
  have n: "0 < (1::nat)" by simp
  from org_view_has_no_job_level [OF example_generated n] obtain v where
    "build_org_view (departments_frame generate_departments)
               (job_positions_frame (generate_job_positions generate_departments))
               (employees_frame [example_employee\<lparr>emp_job_position_id := 1\<rparr>]) = Inr v"
    "length (rows v) = 1"
    "''job_title'' \<notin> set (columns v)" "''job_level'' \<notin> set (columns v)"
    "\<forall>srt d l limit offset.
                 list_employees srt v d (Some l) limit offset =
                   list_employees srt v d None limit offset"
    "\<exists>resp. salary_summary v = Inr resp
                  \<and> levels resp = [level_summary v (StrV ''N/A'')]
                  \<and> level_job_level (level_summary v (StrV ''N/A'')) = StrV ''N/A''
                  \<and> level_count (level_summary v (StrV ''N/A'')) = int 1"
    by blast
  then show ?thesis using example_generated by auto
qed


end
